theory Spec2Isabelle
  imports Complex_Main "HOL-Library.Word"
begin

section \<open>The rust-green web client\<close>

text \<open>
  The repository holds three browser scripts: the analysis page (\<open>RustGreenApp\<close>), the
  session detail page (\<open>SessionDetailApp\<close>) and the sessions browser (\<open>SessionsApp\<close>).
  Each is an object whose fields are the state and whose methods mutate it; the model
  passes the state explicitly and returns, next to the new state, the list of effects
  (HTTP requests, messages, timer operations) the method performs.

  JavaScript strings are sequences of UTF-16 code units. User supplied text (submitted
  code, error messages, text to be escaped) is modelled as such a sequence; protocol tokens
  (status values, session identifiers, URLs, message texts), which are ASCII, are HOL
  strings.
\<close>

subsection \<open>Strings\<close>

type_synonym char16 = "16 word"
type_synonym jsstring = "char16 list"

definition js :: "string \<Rightarrow> jsstring" where
  "js s = map of_char s"

text \<open>
  The class \<open>\w\<close> of a regular expression without the \<open>u\<close> and \<open>i\<close> flags:
  \<open>[A-Za-z0-9_]\<close>.
\<close>

definition is_word_char :: "char16 \<Rightarrow> bool" where
  "is_word_char c \<longleftrightarrow>
     (0x41 \<le> c \<and> c \<le> 0x5A) \<or> (0x61 \<le> c \<and> c \<le> 0x7A) \<or> (0x30 \<le> c \<and> c \<le> 0x39) \<or> c = 0x5F"

text \<open>
  ECMAScript's WhiteSpace and LineTerminator code points: what \<open>String.prototype.trim\<close>
  strips and what \<open>\s\<close> matches.
\<close>

definition is_white_space :: "char16 \<Rightarrow> bool" where
  "is_white_space c \<longleftrightarrow>
     c = 0x09 \<or> c = 0x0A \<or> c = 0x0B \<or> c = 0x0C \<or> c = 0x0D \<or> c = 0x20 \<or> c = 0xA0 \<or>
     c = 0x1680 \<or> (0x2000 \<le> c \<and> c \<le> 0x200A) \<or> c = 0x2028 \<or> c = 0x2029 \<or>
     c = 0x202F \<or> c = 0x205F \<or> c = 0x3000 \<or> c = 0xFEFF"

definition trim :: "jsstring \<Rightarrow> jsstring" where
  "trim s = rev (dropWhile is_white_space (rev (dropWhile is_white_space s)))"

subsection \<open>escapeHtml\<close>

text \<open>
  \<^verbatim>\<open>
  escapeHtml: function(text) {
      const div = document.createElement('div');
      div.textContent = text;
      return div.innerHTML;
  }
  \<close>
  The three scripts carry the same function. It runs on the browser's DOM: setting
  \<open>textContent\<close> replaces the children of the element by one text node holding the string
  (by nothing when the string is empty), and reading \<open>innerHTML\<close> serialises the children
  with the HTML fragment serialisation algorithm, whose text escaping replaces \<open>&\<close> by
  \<open>&amp;\<close>, U+00A0 by \<open>&nbsp;\<close>, \<open><\<close> by \<open>&lt;\<close> and \<open>>\<close> by \<open>&gt;\<close>.
\<close>

datatype node = Text jsstring

record element =
  tagName :: string
  childNodes :: "node list"

definition createElement :: "string \<Rightarrow> element" where
  "createElement tag = \<lparr>tagName = tag, childNodes = []\<rparr>"

definition set_textContent :: "element \<Rightarrow> jsstring \<Rightarrow> element" where
  "set_textContent el text = el\<lparr>childNodes := (if text = [] then [] else [Text text])\<rparr>"

definition escape_code_unit :: "char16 \<Rightarrow> jsstring" where
  "escape_code_unit c =
     (if c = 0x26 then js ''&amp;''
      else if c = 0xA0 then js ''&nbsp;''
      else if c = 0x3C then js ''&lt;''
      else if c = 0x3E then js ''&gt;''
      else [c])"

fun serialize_node :: "node \<Rightarrow> jsstring" where
  "serialize_node (Text t) = concat (map escape_code_unit t)"

definition innerHTML :: "element \<Rightarrow> jsstring" where
  "innerHTML el = concat (map serialize_node (childNodes el))"

definition escapeHtml :: "jsstring \<Rightarrow> jsstring" where
  "escapeHtml text = (let d = createElement ''div''; d = set_textContent d text in innerHTML d)"

text \<open>
  The replacement the specification describes: \<open>&\<close>, \<open><\<close> and \<open>>\<close> replaced, every other
  code unit kept.
\<close>

definition replace_amp_lt_gt :: "jsstring \<Rightarrow> jsstring" where
  "replace_amp_lt_gt s =
     concat (map (\<lambda>c. if c = 0x26 then js ''&amp;''
                        else if c = 0x3C then js ''&lt;''
                        else if c = 0x3E then js ''&gt;''
                        else [c]) s)"

definition replace_amp_nbsp_lt_gt :: "jsstring \<Rightarrow> jsstring" where
  "replace_amp_nbsp_lt_gt s =
     concat (map (\<lambda>c. if c = 0x26 then js ''&amp;''
                        else if c = 0xA0 then js ''&nbsp;''
                        else if c = 0x3C then js ''&lt;''
                        else if c = 0x3E then js ''&gt;''
                        else [c]) s)"

subsection \<open>countLines and countUnsafeBlocks\<close>

text \<open>
  \<^verbatim>\<open>
  countLines: function(code) {
      return code.split('\n').length;
  }
  \<close>
  \<open>split\<close> with a one-character separator: the pieces between the separators, one more
  than there are separators.
\<close>

fun split_on :: "char16 \<Rightarrow> jsstring \<Rightarrow> jsstring list" where
  "split_on sep [] = [[]]"
| "split_on sep (c # cs) =
     (if c = sep then [] # split_on sep cs
      else (case split_on sep cs of
              [] \<Rightarrow> [[c]]
            | piece # pieces \<Rightarrow> (c # piece) # pieces))"

definition countLines :: "jsstring \<Rightarrow> nat" where
  "countLines code = length (split_on 0x0A code)"

text \<open>
  \<^verbatim>\<open>
  countUnsafeBlocks: function(code) {
      const unsafeRegex = /\bunsafe\s*\{/g;
      const matches = code.match(unsafeRegex);
      return matches ? matches.length : 0;
  }
  \<close>
  \<open>\b\<close> holds at index \<open>i\<close> when exactly one of the code units before and at \<open>i\<close> is a
  word character (a missing one counts as not a word character).
\<close>

definition word_boundary :: "jsstring \<Rightarrow> nat \<Rightarrow> bool" where
  "word_boundary s i \<longleftrightarrow>
     (0 < i \<and> i \<le> length s \<and> is_word_char (s ! (i - 1))) \<noteq> (i < length s \<and> is_word_char (s ! i))"

text \<open>
  One attempt of the regular expression at index \<open>i\<close>; the result is the end index of the
  match. \<open>\s*\<close> is greedy; giving white space back never helps, as the next code unit
  would be white space and not the brace, so the attempt takes the longest run.
\<close>

definition unsafeRegex_exec_at :: "jsstring \<Rightarrow> nat \<Rightarrow> nat option" where
  "unsafeRegex_exec_at s i =
     (if word_boundary s i \<and> take 6 (drop i s) = js ''unsafe'' then
        (let j = i + 6 + length (takeWhile is_white_space (drop (i + 6) s))
         in if j < length s \<and> s ! j = 0x7B then Some (Suc j) else None)
      else None)"

text \<open>
  \<open>String.prototype.match\<close> with a global regular expression: starting from
  \<open>lastIndex = 0\<close>, find the next index where the expression matches, record the matched
  text, continue from the end of the match; the result is \<open>null\<close> when nothing matched.
\<close>

function unsafeRegex_match_from :: "jsstring \<Rightarrow> nat \<Rightarrow> jsstring list" where
  "unsafeRegex_match_from s i =
     (if length s < i then []
      else (case unsafeRegex_exec_at s i of
              Some e \<Rightarrow> take (e - i) (drop i s) # unsafeRegex_match_from s e
            | None \<Rightarrow> unsafeRegex_match_from s (Suc i)))"
  by pat_completeness auto
termination
  by (relation "measure (\<lambda>(s, i). Suc (length s) - i)")
     (auto simp: unsafeRegex_exec_at_def Let_def split: if_splits)

declare unsafeRegex_match_from.simps [simp del]

definition match_unsafeRegex :: "jsstring \<Rightarrow> jsstring list option" where
  "match_unsafeRegex code =
     (case unsafeRegex_match_from code 0 of [] \<Rightarrow> None | m # ms \<Rightarrow> Some (m # ms))"

definition countUnsafeBlocks :: "jsstring \<Rightarrow> nat" where
  "countUnsafeBlocks code =
     (case match_unsafeRegex code of Some matches \<Rightarrow> length matches | None \<Rightarrow> 0)"

text \<open>
  The specification's reading of the pattern: at index \<open>i\<close> there is a word boundary, and
  the text from \<open>i\<close> on is the word \<open>unsafe\<close>, then white space (possibly none), then an
  opening brace, then anything.
\<close>

definition unsafe_block_at :: "jsstring \<Rightarrow> nat \<Rightarrow> bool" where
  "unsafe_block_at s i \<longleftrightarrow>
     word_boundary s i \<and>
     (\<exists>ws rest. list_all is_white_space ws \<and> drop i s = js ''unsafe'' @ ws @ js ''{'' @ rest)"

section \<open>The sessions browser (SessionsApp)\<close>

text \<open>
  A row of the listing returned by \<open>GET /sessions?limit=1000\<close>. The field
  \<open>created_time\<close> is the time value of \<open>new Date(session.created_at)\<close> in milliseconds,
  \<open>None\<close> when the date is invalid (its time value is NaN).
\<close>

record session_row =
  row_id :: string
  row_status :: string
  created_time :: "int option"
  row_progress :: int
  row_error_message :: "jsstring option"

text \<open>What the element \<open>sessions-list\<close> shows.\<close>

datatype sessions_view =
  LoadingMessage
  | ErrorMessage
  | NoSessionsFound
  | SessionItems "session_row list"
  | Cleared

fun displayed_sessions :: "sessions_view option \<Rightarrow> session_row list" where
  "displayed_sessions (Some (SessionItems items)) = items"
| "displayed_sessions _ = []"

text \<open>
  The fields of \<open>SessionsApp\<close>. \<open>sessionsList\<close> is the content of the element
  \<open>sessions-list\<close>, \<open>None\<close> when the document has no such element.
\<close>

record sessions_app =
  currentPage :: int
  totalPages :: int
  totalSessions :: int
  allSessions :: "session_row list"
  filteredSessions :: "session_row list"
  currentFilter :: string
  currentSort :: string
  sessionsList :: "sessions_view option"

definition SESSIONS_PER_PAGE :: int where
  "SESSIONS_PER_PAGE = 10"

definition SessionsApp :: "sessions_view option \<Rightarrow> sessions_app" where
  "SessionsApp list_element =
     \<lparr>currentPage = 1, totalPages = 1, totalSessions = 0, allSessions = [], filteredSessions = [],
      currentFilter = ''all'', currentSort = ''newest'', sessionsList = list_element\<rparr>"

text \<open>
  \<open>Array.prototype.slice\<close> with both arguments: negative indices count from the end,
  both are clamped to the array.
\<close>

definition array_slice :: "'a list \<Rightarrow> int \<Rightarrow> int \<Rightarrow> 'a list" where
  "array_slice xs start end =
     (let len = int (length xs);
          k = (if start < 0 then max (len + start) 0 else min start len);
          final = (if end < 0 then max (len + end) 0 else min end len)
      in take (nat (final - k)) (drop (nat k) xs))"

text \<open>
  \<open>Array.prototype.sort\<close> with a comparison function: a stable sort; a comparison
  that yields NaN counts as 0. The comparison result is \<open>None\<close> for NaN. With a
  comparison that is not a consistent order (it is not when some results are NaN) the
  order the engine produces is implementation-defined and need not be the one computed
  here; the result is a rearrangement of the same rows in either case, and nothing below
  depends on more than its length.
\<close>

fun insert_by :: "('a \<Rightarrow> 'a \<Rightarrow> int option) \<Rightarrow> 'a \<Rightarrow> 'a list \<Rightarrow> 'a list" where
  "insert_by cmp x [] = [x]"
| "insert_by cmp x (y # ys) =
     (if (case cmp x y of None \<Rightarrow> 0 | Some v \<Rightarrow> v) \<le> 0 then x # y # ys
      else y # insert_by cmp x ys)"

definition array_sort :: "('a \<Rightarrow> 'a \<Rightarrow> int option) \<Rightarrow> 'a list \<Rightarrow> 'a list" where
  "array_sort cmp xs = foldr (insert_by cmp) xs []"

definition number_minus :: "int option \<Rightarrow> int option \<Rightarrow> int option" where
  "number_minus a b = (case (a, b) of (Some x, Some y) \<Rightarrow> Some (x - y) | _ \<Rightarrow> None)"

definition statusOrder :: "string \<Rightarrow> int option" where
  "statusOrder s =
     (if s = ''processing'' then Some 0
      else if s = ''pending'' then Some 1
      else if s = ''completed'' then Some 2
      else if s = ''failed'' then Some 3
      else None)"

text \<open>\<open>toLowerCase\<close> on the ASCII text of a status.\<close>

definition toLowerCase :: "string \<Rightarrow> string" where
  "toLowerCase s =
     map (\<lambda>c. if (65::nat) \<le> of_char c \<and> of_char c \<le> (90::nat)
               then char_of (of_char c + (32::nat)) else c) s"

text \<open>
  \<^verbatim>\<open>
  renderSessions: function() {
      const sessionsList = document.getElementById('sessions-list');
      if (!sessionsList) return;
      const startIndex = (this.currentPage - 1) * SESSIONS_PER_PAGE;
      const endIndex = Math.min(startIndex + SESSIONS_PER_PAGE, this.filteredSessions.length);
      const pageSessions = this.filteredSessions.slice(startIndex, endIndex);
      if (pageSessions.length === 0) { sessionsList.innerHTML = `... No Sessions Found ...`; return; }
      sessionsList.innerHTML = '';
      pageSessions.forEach(session => { sessionsList.appendChild(this.createSessionItem(session)); });
  }
  \<close>
\<close>

definition renderSessions :: "sessions_app \<Rightarrow> sessions_app" where
  "renderSessions app =
     (case sessionsList app of
        None \<Rightarrow> app
      | Some _ \<Rightarrow>
          (let startIndex = (currentPage app - 1) * SESSIONS_PER_PAGE;
               endIndex = min (startIndex + SESSIONS_PER_PAGE) (int (length (filteredSessions app)));
               pageSessions = array_slice (filteredSessions app) startIndex endIndex
           in if length pageSessions = 0 then app\<lparr>sessionsList := Some NoSessionsFound\<rparr>
              else app\<lparr>sessionsList := Some (SessionItems pageSessions)\<rparr>))"

text \<open>
  \<^verbatim>\<open>
  updatePagination: function() {
      this.totalSessions = this.filteredSessions.length;
      this.totalPages = Math.ceil(this.totalSessions / SESSIONS_PER_PAGE) || 1;
      ... page indicator and the buttons' disabled flags ...
  }
  \<close>
  The quotient is a double; for an array length it is far from the precision where the
  ceiling could differ from the ceiling of the exact quotient. The writes to the page
  indicator and to the buttons are left out: no method reads them.
\<close>

definition updatePagination :: "sessions_app \<Rightarrow> sessions_app" where
  "updatePagination app =
     (let app = app\<lparr>totalSessions := int (length (filteredSessions app))\<rparr>;
          pages = \<lceil>real_of_int (totalSessions app) / real_of_int SESSIONS_PER_PAGE\<rceil>
      in app\<lparr>totalPages := (if pages = 0 then 1 else pages)\<rparr>)"

text \<open>
  \<^verbatim>\<open>
  applySorting: function() {
      switch (this.currentSort) {
          case 'newest': this.filteredSessions.sort((a, b) => new Date(b.created_at) - new Date(a.created_at)); break;
          case 'oldest': this.filteredSessions.sort((a, b) => new Date(a.created_at) - new Date(b.created_at)); break;
          case 'status': this.filteredSessions.sort((a, b) => statusOrder[a.status] - statusOrder[b.status]); break;
      }
      this.updatePagination();
      this.renderSessions();
  }
  \<close>
\<close>

definition applySorting :: "sessions_app \<Rightarrow> sessions_app" where
  "applySorting app =
     (let app =
        (if currentSort app = ''newest'' then
           app\<lparr>filteredSessions :=
             array_sort (\<lambda>a b. number_minus (created_time b) (created_time a)) (filteredSessions app)\<rparr>
         else if currentSort app = ''oldest'' then
           app\<lparr>filteredSessions :=
             array_sort (\<lambda>a b. number_minus (created_time a) (created_time b)) (filteredSessions app)\<rparr>
         else if currentSort app = ''status'' then
           app\<lparr>filteredSessions :=
             array_sort (\<lambda>a b. number_minus (statusOrder (row_status a)) (statusOrder (row_status b)))
               (filteredSessions app)\<rparr>
         else app)
      in renderSessions (updatePagination app))"

text \<open>
  \<^verbatim>\<open>
  applyFilters: function() {
      if (this.currentFilter === 'all') {
          this.filteredSessions = [...this.allSessions];
      } else {
          this.filteredSessions = this.allSessions.filter(session =>
              session.status.toLowerCase() === this.currentFilter);
      }
      this.currentPage = 1;
      this.applySorting();
  }
  \<close>
\<close>

definition applyFilters :: "sessions_app \<Rightarrow> sessions_app" where
  "applyFilters app =
     (let app =
        (if currentFilter app = ''all'' then app\<lparr>filteredSessions := allSessions app\<rparr>
         else app\<lparr>filteredSessions :=
                filter (\<lambda>session. toLowerCase (row_status session) = currentFilter app)
                  (allSessions app)\<rparr>);
          app = app\<lparr>currentPage := 1\<rparr>
      in applySorting app)"

text \<open>
  \<open>loadSessions\<close> shows the loading message and requests the listing; the rest runs when
  the response arrives (\<open>loadSessions_then\<close>) or the request fails (\<open>loadSessions_catch\<close>).
  \<^verbatim>\<open>
  .then(sessions => {
      this.allSessions = sessions;
      this.filteredSessions = [...sessions];
      this.applyFilters();
      this.applySorting();
      this.updatePagination();
      this.renderSessions();
      this.updateStats();
      if (sessions.length === 0) { ... if (sessionsList) { sessionsList.innerHTML = ''; } }
  })
  \<close>
\<close>

definition loadSessions :: "sessions_app \<Rightarrow> sessions_app" where
  "loadSessions app =
     (case sessionsList app of None \<Rightarrow> app | Some _ \<Rightarrow> app\<lparr>sessionsList := Some LoadingMessage\<rparr>)"

definition loadSessions_then :: "sessions_app \<Rightarrow> session_row list \<Rightarrow> sessions_app" where
  "loadSessions_then app sessions =
     (let app = app\<lparr>allSessions := sessions\<rparr>;
          app = app\<lparr>filteredSessions := sessions\<rparr>;
          app = applyFilters app;
          app = applySorting app;
          app = updatePagination app;
          app = renderSessions app
      in if length sessions = 0
         then (case sessionsList app of None \<Rightarrow> app | Some _ \<Rightarrow> app\<lparr>sessionsList := Some Cleared\<rparr>)
         else app)"

definition loadSessions_catch :: "sessions_app \<Rightarrow> sessions_app" where
  "loadSessions_catch app =
     (case sessionsList app of None \<Rightarrow> app | Some _ \<Rightarrow> app\<lparr>sessionsList := Some ErrorMessage\<rparr>)"

text \<open>
  The user's operations, as registered by \<open>initEventListeners\<close>, and the two ways a
  pending \<open>loadSessions\<close> ends.
  \<^verbatim>\<open>
  prevPageBtn.addEventListener('click', () => {
      if (this.currentPage > 1) { this.currentPage--; this.renderSessions(); } });
  nextPageBtn.addEventListener('click', () => {
      if (this.currentPage < this.totalPages) { this.currentPage++; this.renderSessions(); } });
  \<close>
\<close>

datatype sessions_event =
  FilterChange string
  | SortChange string
  | RefreshClick
  | SessionsLoaded "session_row list"
  | SessionsLoadFailed
  | PrevPageClick
  | NextPageClick

fun sessions_step :: "sessions_app \<Rightarrow> sessions_event \<Rightarrow> sessions_app" where
  "sessions_step app (FilterChange v) = applyFilters (app\<lparr>currentFilter := v\<rparr>)"
| "sessions_step app (SortChange v) = applySorting (app\<lparr>currentSort := v\<rparr>)"
| "sessions_step app RefreshClick = loadSessions app"
| "sessions_step app (SessionsLoaded sessions) = loadSessions_then app sessions"
| "sessions_step app SessionsLoadFailed = loadSessions_catch app"
| "sessions_step app PrevPageClick =
     (if currentPage app > 1 then renderSessions (app\<lparr>currentPage := currentPage app - 1\<rparr>) else app)"
| "sessions_step app NextPageClick =
     (if currentPage app < totalPages app then renderSessions (app\<lparr>currentPage := currentPage app + 1\<rparr>)
      else app)"

text \<open>\<open>init\<close> registers the listeners and calls \<open>loadSessions\<close>; then the events arrive.\<close>

definition sessions_init :: "sessions_view option \<Rightarrow> sessions_app" where
  "sessions_init list_element = loadSessions (SessionsApp list_element)"

definition sessions_run :: "sessions_view option \<Rightarrow> sessions_event list \<Rightarrow> sessions_app" where
  "sessions_run list_element events = foldl sessions_step (sessions_init list_element) events"

text \<open>The pagination invariant of the sessions browser.\<close>

definition pagination_inv :: "sessions_app \<Rightarrow> bool" where
  "pagination_inv app \<longleftrightarrow>
     totalPages app = max 1 \<lceil>real (length (filteredSessions app)) / 10\<rceil> \<and>
     1 \<le> currentPage app \<and> currentPage app \<le> totalPages app"

text \<open>A row for the examples: a completed session created at time \<open>t\<close>.\<close>

definition example_row :: "int \<Rightarrow> session_row" where
  "example_row t =
     \<lparr>row_id = ''5f2b'', row_status = ''completed'', created_time = Some t, row_progress = 100,
      row_error_message = None\<rparr>"

section \<open>The session pipeline on the server\<close>

text \<open>
  The repository's backend (Session Manager, Job Queue, Analysis Worker) is not among the
  sources; only its checklist is. What the claims need of it is modelled from the
  specification.
\<close>

datatype status = PENDING | PROCESSING | COMPLETED | FAILED

datatype manager_error = ValidationError | NotFoundError | InvalidTransitionError

record session =
  status :: status
  progress :: int
  error_message :: "jsstring option"

definition is_terminal :: "status \<Rightarrow> bool" where
  "is_terminal st \<longleftrightarrow> st = COMPLETED \<or> st = FAILED"

text \<open>
  Modelled from the spec: the Session Manager's state machine (section 4.1), which is
  missing from the sources. \<open>PENDING \<rightarrow> PROCESSING\<close>, \<open>PROCESSING \<rightarrow> COMPLETED\<close>,
  \<open>PROCESSING \<rightarrow> FAILED\<close>, and nothing else.
\<close>

definition allowed_transition :: "status \<Rightarrow> status \<Rightarrow> bool" where
  "allowed_transition old new \<longleftrightarrow>
     (old = PENDING \<and> new = PROCESSING) \<or>
     (old = PROCESSING \<and> new = COMPLETED) \<or>
     (old = PROCESSING \<and> new = FAILED)"

text \<open>
  Modelled from the spec: \<open>Transition(id, newStatus, errorMessage?)\<close> of the Session
  Manager, missing from the sources. It enforces the state machine and fails with
  \<open>InvalidTransitionError\<close> otherwise; the error message is recorded on \<open>FAILED\<close> only.
\<close>

definition Transition :: "session \<Rightarrow> status \<Rightarrow> jsstring option \<Rightarrow> manager_error + session" where
  "Transition s newStatus errorMessage =
     (if allowed_transition (status s) newStatus then
        Inr (s\<lparr>status := newStatus,
               error_message := (if newStatus = FAILED then errorMessage else error_message s)\<rparr>)
      else Inl InvalidTransitionError)"

text \<open>
  Modelled from the spec: \<open>UpdateProgress(id, progress)\<close> of the Session Manager, missing
  from the sources.
\<close>

definition UpdateProgress :: "session \<Rightarrow> int \<Rightarrow> session" where
  "UpdateProgress s p = s\<lparr>progress := p\<rparr>"

text \<open>
  Modelled from the spec: a session as \<open>CreateSession\<close> persists it (section 4.1, missing
  from the sources): status \<open>PENDING\<close>, progress 0.
\<close>

definition new_session :: session where
  "new_session = \<lparr>status = PENDING, progress = 0, error_message = None\<rparr>"

text \<open>
  Modelled from the spec: the progress the Analysis Worker reports after a block
  (section 4.3, missing from the sources), \<open>round(100 * blocksCompleted / totalBlocks)\<close>,
  rounding to the nearest integer, halves up.
\<close>

definition block_progress :: "nat \<Rightarrow> nat \<Rightarrow> int" where
  "block_progress blocksCompleted totalBlocks =
     int ((200 * blocksCompleted + totalBlocks) div (2 * totalBlocks))"

text \<open>
  What becomes of a block: its stages succeed (possibly after retries), or one stage
  exhausts its retries.
\<close>

datatype block_outcome = BlockDone | BlockFailed jsstring

text \<open>
  Modelled from the spec: the Analysis Worker's loop over the code blocks (section 4.3,
  missing from the sources). The result is the list of states the session takes, in
  order: after each finished block the progress is updated; after the last block the
  session is \<open>COMPLETED\<close>; a failed block makes it \<open>FAILED\<close> and ends the processing. A
  refused transition ends the processing.
\<close>

fun process_blocks :: "nat \<Rightarrow> nat \<Rightarrow> block_outcome list \<Rightarrow> session \<Rightarrow> session list" where
  "process_blocks totalBlocks blocksCompleted [] s =
     (case Transition s COMPLETED None of Inl _ \<Rightarrow> [] | Inr s' \<Rightarrow> [s'])"
| "process_blocks totalBlocks blocksCompleted (BlockDone # blocks) s =
     (let s' = UpdateProgress s (block_progress (Suc blocksCompleted) totalBlocks)
      in s' # process_blocks totalBlocks (Suc blocksCompleted) blocks s')"
| "process_blocks totalBlocks blocksCompleted (BlockFailed msg # blocks) s =
     (case Transition s FAILED (Some msg) of Inl _ \<Rightarrow> [] | Inr s' \<Rightarrow> [s'])"

text \<open>
  Modelled from the spec: the Analysis Worker on a dequeued session (section 4.3, missing
  from the sources): transition to \<open>PROCESSING\<close>; with no block, \<open>COMPLETED\<close> with
  progress 100 at once; otherwise the loop over the blocks.
\<close>

definition worker_process :: "session \<Rightarrow> block_outcome list \<Rightarrow> session list" where
  "worker_process s blocks =
     (case Transition s PROCESSING None of
        Inl _ \<Rightarrow> []
      | Inr s1 \<Rightarrow>
          s1 # (if blocks = [] then
                  (case Transition (UpdateProgress s1 100) COMPLETED None of
                     Inl _ \<Rightarrow> [] | Inr s2 \<Rightarrow> [s2])
                else process_blocks (length blocks) 0 blocks s1))"

text \<open>
  The states of a session over its lifetime: created, then (if a worker dequeues it,
  \<open>Some blocks\<close>) processed. A poll reads the state current at its time, so a sequence
  of polls reads the states at a non-decreasing sequence of positions of this list.
\<close>

definition session_lifetime :: "block_outcome list option \<Rightarrow> session list" where
  "session_lifetime work =
     new_session # (case work of None \<Rightarrow> [] | Some blocks \<Rightarrow> worker_process new_session blocks)"

definition polled_progress :: "block_outcome list option \<Rightarrow> nat list \<Rightarrow> int list" where
  "polled_progress work polls = map (\<lambda>i. progress (session_lifetime work ! i)) polls"

text \<open>The server's status as it appears in a response.\<close>

fun status_name :: "status \<Rightarrow> string" where
  "status_name PENDING = ''pending''"
| "status_name PROCESSING = ''processing''"
| "status_name COMPLETED = ''completed''"
| "status_name FAILED = ''failed''"

section \<open>Requests and effects of the client\<close>

text \<open>
  \<^verbatim>\<open>
  const API_BASE_URL = 'http://localhost:8000/api/v1';
  const POLLING_INTERVAL = 2000; // 2 seconds
  const MAX_POLLING_TIME = 10 * 60 * 1000; // 10 minutes
  \<close>
\<close>

definition API_BASE_URL :: string where
  "API_BASE_URL = ''http://localhost:8000/api/v1''"

definition POLLING_INTERVAL :: int where
  "POLLING_INTERVAL = 2000"

definition MAX_POLLING_TIME :: int where
  "MAX_POLLING_TIME = 10 * 60 * 1000"

text \<open>
  The second argument of \<open>fetch\<close>: an object whose keys may be absent. \<open>JSON_code code\<close>
  is the text \<open>JSON.stringify({ code })\<close>.
\<close>

datatype request_body = JSON_code jsstring

record request_init =
  init_method :: "string option"
  init_headers :: "(string \<times> string) list option"
  init_body :: "request_body option"

text \<open>The request \<open>fetch\<close> sends; its method is \<open>GET\<close> unless the options name one.\<close>

record http_request =
  req_url :: string
  req_method :: string
  req_headers :: "(string \<times> string) list"
  req_body :: "request_body option"

definition fetch :: "string \<Rightarrow> request_init \<Rightarrow> http_request" where
  "fetch url init =
     \<lparr>req_url = url,
      req_method = (case init_method init of None \<Rightarrow> ''GET'' | Some m \<Rightarrow> m),
      req_headers = (case init_headers init of None \<Rightarrow> [] | Some h \<Rightarrow> h),
      req_body = init_body init\<rparr>"

text \<open>The object spread \<open>{ ...a, ...b }\<close>: a key of \<open>b\<close> wins over the same key of \<open>a\<close>.\<close>

definition spread :: "request_init \<Rightarrow> request_init \<Rightarrow> request_init" where
  "spread a b =
     \<lparr>init_method = (case init_method b of None \<Rightarrow> init_method a | Some m \<Rightarrow> Some m),
      init_headers = (case init_headers b of None \<Rightarrow> init_headers a | Some h \<Rightarrow> Some h),
      init_body = (case init_body b of None \<Rightarrow> init_body a | Some v \<Rightarrow> Some v)\<rparr>"

definition no_options :: request_init where
  "no_options = \<lparr>init_method = None, init_headers = None, init_body = None\<rparr>"

text \<open>
  \<^verbatim>\<open>
  apiRequest: async function(endpoint, options = {}) {
      const url = `${API_BASE_URL}${endpoint}`;
      const defaultOptions = { headers: { 'Content-Type': 'application/json' } };
      try {
          const response = await fetch(url, { ...defaultOptions, ...options });
          if (!response.ok) { ... throw new Error(errorMessage); }
          return await response.json();
      } catch (error) { console.error('API request failed:', error); throw error; }
  }
  \<close>
  The three scripts carry the same helper. \<open>apiRequest\<close> is the request it sends; its
  result, which arrives later, is \<open>Inr\<close> the decoded body or \<open>Inl\<close> the message of the error
  thrown.
\<close>

definition defaultOptions :: request_init where
  "defaultOptions =
     \<lparr>init_method = None, init_headers = Some [(''Content-Type'', ''application/json'')],
      init_body = None\<rparr>"

definition apiRequest :: "string \<Rightarrow> request_init \<Rightarrow> http_request" where
  "apiRequest endpoint options = fetch (API_BASE_URL @ endpoint) (spread defaultOptions options)"

text \<open>
  \<^verbatim>\<open>
  createSession: async function(code) {
      return this.apiRequest('/sessions', { method: 'POST', body: JSON.stringify({ code }) });
  },
  getSessionStatus: async function(sessionId) {
      return this.apiRequest(`/sessions/${sessionId}/status`);
  },
  getSession: async function(sessionId) {
      return this.apiRequest(`/sessions/${sessionId}`);
  },
  \<close>
\<close>

definition createSession :: "jsstring \<Rightarrow> http_request" where
  "createSession code =
     apiRequest ''/sessions''
       \<lparr>init_method = Some ''POST'', init_headers = None, init_body = Some (JSON_code code)\<rparr>"

definition getSessionStatus :: "string \<Rightarrow> http_request" where
  "getSessionStatus sessionId = apiRequest (''/sessions/'' @ sessionId @ ''/status'') no_options"

definition getSession :: "string \<Rightarrow> http_request" where
  "getSession sessionId = apiRequest (''/sessions/'' @ sessionId) no_options"

text \<open>The body of a status response and of a session response.\<close>

record status_response =
  resp_status :: string
  resp_progress :: int

record session_json =
  json_id :: string
  json_status :: string
  json_progress :: int
  json_error_message :: "jsstring option"
  json_analyses :: nat

text \<open>
  What a method does besides changing the fields of its object: the requests it sends and
  the calls that only write to the page or the console.
\<close>

datatype effect =
  Request http_request
  | ShowMessage string string
  | ConsoleError string
  | SetAnalyzing
  | RestoreAnalysisButtons
  | ShowProgressDisplay string
  | HideProgressDisplay
  | StartTimeElapsedCounter
  | StopTimeElapsedCounter
  | UpdateProgressBar int string
  | SetInterval int
  | ClearInterval
  | ShowLoadingState
  | RenderSessionData
  | UpdateProgressFromStatus int string
  | ShowError string
  | DisplayResults nat

fun is_request :: "effect \<Rightarrow> bool" where
  "is_request (Request r) = True"
| "is_request _ = False"

definition requests :: "effect list \<Rightarrow> http_request list" where
  "requests effects = concat (map (\<lambda>e. case e of Request r \<Rightarrow> [r] | _ \<Rightarrow> []) effects)"

text \<open>A timer handle as \<open>setInterval\<close> returns it; a field holds one or \<open>null\<close>.\<close>

datatype timer = IntervalTimer

text \<open>
  An \<open>async\<close> method runs up to its first \<open>await\<close> when called: it has then returned,
  or it waits for the response, and the rest runs when the response arrives.
\<close>

datatype phase = Returned | Awaiting

text \<open>JavaScript's truthiness of a value that is \<open>null\<close> or a string.\<close>

definition truthy :: "'a list option \<Rightarrow> bool" where
  "truthy v \<longleftrightarrow> (case v of None \<Rightarrow> False | Some s \<Rightarrow> s \<noteq> [])"

text \<open>A number read from a field that may hold \<open>null\<close>: \<open>null\<close> counts as 0 in a subtraction.\<close>

definition to_number :: "int option \<Rightarrow> int" where
  "to_number v = (case v of None \<Rightarrow> 0 | Some n \<Rightarrow> n)"

definition terminal_name :: "string \<Rightarrow> bool" where
  "terminal_name st \<longleftrightarrow> st = ''completed'' \<or> st = ''failed''"

section \<open>The analysis page (RustGreenApp)\<close>

text \<open>
  The fields of \<open>RustGreenApp\<close>. The timer of the elapsed-time display only drives a
  counter on the page; starting and stopping it are the effects \<open>StartTimeElapsedCounter\<close>
  and \<open>StopTimeElapsedCounter\<close>.
\<close>

record rust_green_app =
  currentSessionId :: "string option"
  pollingInterval :: "timer option"
  pollingStartTime :: "int option"

definition RustGreenApp :: rust_green_app where
  "RustGreenApp = \<lparr>currentSessionId = None, pollingInterval = None, pollingStartTime = None\<rparr>"

text \<open>
  \<^verbatim>\<open>
  stopPolling: function() {
      if (this.pollingInterval) { clearInterval(this.pollingInterval); this.pollingInterval = null; }
      this.currentSessionId = null;
      this.pollingStartTime = null;
      this.hideProgressDisplay();
      this.stopTimeElapsedCounter();
  }
  \<close>
\<close>

definition stopPolling :: "rust_green_app \<Rightarrow> rust_green_app \<times> effect list" where
  "stopPolling app =
     (app\<lparr>pollingInterval := None, currentSessionId := None, pollingStartTime := None\<rparr>,
      (if pollingInterval app \<noteq> None then [ClearInterval] else [])
        @ [HideProgressDisplay, StopTimeElapsedCounter])"

text \<open>
  \<^verbatim>\<open>
  fetchAndDisplayResults: async function(sessionId) {
      if (!sessionId) {
          this.showMessage('Cannot fetch results: invalid session ID', 'error');
          this.restoreAnalysisButtons();
          return;
      }
      try {
          const session = await this.getSession(sessionId);
          ... display the findings, restore the buttons ...
  \<close>
  Up to the \<open>await\<close>; what follows writes to the page only.
\<close>

definition fetchAndDisplayResults :: "string option \<Rightarrow> effect list" where
  "fetchAndDisplayResults sessionId =
     (if \<not> truthy sessionId
      then [ShowMessage ''Cannot fetch results: invalid session ID'' ''error'', RestoreAnalysisButtons]
      else [Request (getSession (the sessionId))])"

text \<open>
  \<^verbatim>\<open>
          const session = await this.getSession(sessionId);
          this.updateResultsSummary(session.analyses);
          this.displayFindings(session.analyses);
          this.showMessage(`Analysis complete! Found ${session.analyses.length} safety issue...`, 'success');
          this.restoreAnalysisButtons();
      } catch (error) {
          this.showMessage(`Failed to fetch results: ${error.message}`, 'error');
          this.restoreAnalysisButtons();
      }
  \<close>
  The rest of \<open>fetchAndDisplayResults\<close>, when the answer has arrived. It reads and writes
  no field of the application: the summary, the findings and the message for
  \<open>session.analyses\<close> are the one effect \<open>DisplayResults\<close>.
\<close>

definition fetchAndDisplayResults_resume :: "string + session_json \<Rightarrow> effect list" where
  "fetchAndDisplayResults_resume answer =
     (case answer of
        Inr session \<Rightarrow> [DisplayResults (json_analyses session), RestoreAnalysisButtons]
      | Inl error \<Rightarrow>
          [ConsoleError ''API request failed:'',
           ShowMessage (''Failed to fetch results: '' @ error) ''error'', RestoreAnalysisButtons])"

text \<open>
  \<^verbatim>\<open>
  pollSessionStatus: async function() {
      if (!this.currentSessionId) return;
      if (Date.now() - this.pollingStartTime > MAX_POLLING_TIME) {
          this.showMessage('Analysis timed out after 10 minutes. Please try again.', 'error');
          this.stopPolling();
          this.restoreAnalysisButtons();
          return;
      }
      try {
          const status = await this.getSessionStatus(this.currentSessionId);
          this.updateProgress(status.progress, status.status);
          if (status.status === 'completed') {
              const sessionId = this.currentSessionId; // Save before clearing
              this.stopPolling();
              this.fetchAndDisplayResults(sessionId);
          } else if (status.status === 'failed') {
              const sessionId = this.currentSessionId; // Save before clearing
              this.stopPolling();
              this.showMessage('Analysis failed. Please try again.', 'error');
              this.restoreAnalysisButtons();
          }
          // If still PROCESSING or PENDING, continue polling
      } catch (error) {
          console.error('Polling error:', error);
      }
  }
  \<close>
  \<open>pollSessionStatus_begin\<close> is the part up to the \<open>await\<close>, at time \<open>now = Date.now()\<close>;
  \<open>pollSessionStatus_resume\<close> is the part that runs when the response has arrived.
\<close>

definition pollSessionStatus_begin :: "rust_green_app \<Rightarrow> int \<Rightarrow> rust_green_app \<times> effect list \<times> phase" where
  "pollSessionStatus_begin app now =
     (if \<not> truthy (currentSessionId app) then (app, [], Returned)
      else if now - to_number (pollingStartTime app) > MAX_POLLING_TIME then
        (let (app', stopped) = stopPolling app
         in (app',
             [ShowMessage ''Analysis timed out after 10 minutes. Please try again.'' ''error'']
               @ stopped @ [RestoreAnalysisButtons],
             Returned))
      else (app, [Request (getSessionStatus (the (currentSessionId app)))], Awaiting))"

definition pollSessionStatus_resume ::
    "rust_green_app \<Rightarrow> string + status_response \<Rightarrow> rust_green_app \<times> effect list" where
  "pollSessionStatus_resume app response =
     (case response of
        Inl error \<Rightarrow> (app, [ConsoleError ''API request failed:'', ConsoleError ''Polling error:''])
      | Inr st \<Rightarrow>
          (if resp_status st = ''completed'' then
             (let sessionId = currentSessionId app;
                  (app', stopped) = stopPolling app
              in (app',
                  [UpdateProgressBar (resp_progress st) (resp_status st)] @ stopped
                    @ fetchAndDisplayResults sessionId))
           else if resp_status st = ''failed'' then
             (let (app', stopped) = stopPolling app
              in (app',
                  [UpdateProgressBar (resp_progress st) (resp_status st)] @ stopped
                    @ [ShowMessage ''Analysis failed. Please try again.'' ''error'',
                       RestoreAnalysisButtons]))
           else (app, [UpdateProgressBar (resp_progress st) (resp_status st)])))"

text \<open>
  \<^verbatim>\<open>
  startPolling: function(sessionId) {
      this.stopPolling();
      this.currentSessionId = sessionId;
      this.pollingStartTime = Date.now();
      this.showProgressDisplay(sessionId);
      this.pollSessionStatus();
      this.pollingInterval = setInterval(() => { this.pollSessionStatus(); }, POLLING_INTERVAL);
      this.startTimeElapsedCounter();
  }
  \<close>
  The call of \<open>pollSessionStatus\<close> runs up to its \<open>await\<close>, in the same millisecond; the
  phase returned tells whether its response is awaited.
\<close>

definition startPolling :: "rust_green_app \<Rightarrow> string \<Rightarrow> int \<Rightarrow> rust_green_app \<times> effect list \<times> phase" where
  "startPolling app sessionId now =
     (let (app, stopped) = stopPolling app;
          app = app\<lparr>currentSessionId := Some sessionId\<rparr>;
          app = app\<lparr>pollingStartTime := Some now\<rparr>;
          (app, polled, ph) = pollSessionStatus_begin app now;
          app = app\<lparr>pollingInterval := Some IntervalTimer\<rparr>
      in (app,
          stopped @ [ShowProgressDisplay sessionId] @ polled
            @ [SetInterval POLLING_INTERVAL, StartTimeElapsedCounter],
          ph))"

text \<open>
  \<^verbatim>\<open>
  startAnalysis: async function() {
      const codeInput = document.getElementById('rust-code');
      const analyzeBtn = document.getElementById('analyze-btn');
      const code = codeInput.value.trim();
      if (!code) {
          this.showMessage('Please enter some Rust code to analyze.', 'warning');
          return;
      }
      ... show the loading state, disable the buttons ...
      try {
          const session = await this.createSession(code);
          this.currentSessionId = session.id;
          this.showMessage(`Analysis started! Session ID: ${session.id.substring(0, 8)}...`, 'success');
          this.startPolling(session.id);
      } catch (error) {
          this.showMessage(`Failed to start analysis: ${error.message}`, 'error');
          ... restore the buttons ...
      }
  }
  \<close>
  \<open>startAnalysis_begin\<close> takes the value of the input element and runs up to the \<open>await\<close>;
  \<open>startAnalysis_resume\<close> runs when the response, the new session's identifier, has
  arrived.
\<close>

definition startAnalysis_begin :: "rust_green_app \<Rightarrow> jsstring \<Rightarrow> rust_green_app \<times> effect list \<times> phase" where
  "startAnalysis_begin app input_value =
     (let code = trim input_value
      in if code = [] then
           (app, [ShowMessage ''Please enter some Rust code to analyze.'' ''warning''], Returned)
         else (app, [SetAnalyzing, Request (createSession code)], Awaiting))"

definition startAnalysis_resume ::
    "rust_green_app \<Rightarrow> string + string \<Rightarrow> int \<Rightarrow> rust_green_app \<times> effect list \<times> phase" where
  "startAnalysis_resume app response now =
     (case response of
        Inr session_id \<Rightarrow>
          (let app = app\<lparr>currentSessionId := Some session_id\<rparr>;
               (app, started, ph) = startPolling app session_id now
           in (app,
               [ShowMessage (''Analysis started! Session ID: '' @ take 8 session_id @ ''...'') ''success'']
                 @ started,
               ph))
      | Inl error \<Rightarrow>
          (app,
           [ConsoleError ''API request failed:'',
            ShowMessage (''Failed to start analysis: '' @ error) ''error'', RestoreAnalysisButtons],
           Returned))"

text \<open>
  The interval timer calls \<open>pollSessionStatus\<close> every \<open>POLLING_INTERVAL\<close> milliseconds
  until it is cleared. \<open>poll_loop\<close> runs the calls of a list of ticks, each with the time
  of the call and the response its request gets, in the schedule where a response
  arrives before the next tick; it returns the final state and all effects.
\<close>

fun poll_loop ::
    "rust_green_app \<Rightarrow> (int \<times> (string + status_response)) list \<Rightarrow> rust_green_app \<times> effect list" where
  "poll_loop app [] = (app, [])"
| "poll_loop app ((now, response) # ticks) =
     (if pollingInterval app = None then (app, [])
      else
        (let (app, begun, ph) = pollSessionStatus_begin app now;
             (app, resumed) = (case ph of Returned \<Rightarrow> (app, [])
                                | Awaiting \<Rightarrow> pollSessionStatus_resume app response);
             (app, rest) = poll_loop app ticks
         in (app, begun @ resumed @ rest)))"

text \<open>
  Whether a tick ends the polling that started at \<open>start\<close>: the time is up, or the
  response carries a terminal status.
\<close>

definition timed_out :: "int option \<Rightarrow> int \<Rightarrow> bool" where
  "timed_out start now \<longleftrightarrow> now - to_number start > MAX_POLLING_TIME"

fun observed_terminal :: "string + status_response \<Rightarrow> bool" where
  "observed_terminal (Inr st) = terminal_name (resp_status st)"
| "observed_terminal (Inl error) = False"

definition ends_polling :: "int option \<Rightarrow> int \<times> (string + status_response) \<Rightarrow> bool" where
  "ends_polling start tick \<longleftrightarrow> timed_out start (fst tick) \<or> observed_terminal (snd tick)"

section \<open>The session detail page (SessionDetailApp)\<close>

text \<open>
  The two elements of the page that \<open>updateErrorMessage\<close> writes: the banner
  \<open>error-message\<close> with its \<open>style.display\<close>, and \<open>error-text\<close> with its text. An element
  the page lacks is \<open>None\<close>.
\<close>

record page_element =
  style_display :: string
  textContent :: jsstring

record detail_document =
  error_message_el :: "page_element option"
  error_text_el :: "page_element option"

text \<open>
  The fields of \<open>SessionDetailApp\<close>, with the document it writes to. The timer of the
  elapsed-time display (\<open>timeElapsedInterval\<close>) only drives a counter on the page and is
  left out.
\<close>

record session_detail_app =
  sessionId :: "string option"
  sessionData :: "session_json option"
  detail_pollingInterval :: "timer option"
  detail_pollingStartTime :: "int option"
  document :: detail_document

definition SessionDetailApp :: "detail_document \<Rightarrow> session_detail_app" where
  "SessionDetailApp doc =
     \<lparr>sessionId = None, sessionData = None, detail_pollingInterval = None,
      detail_pollingStartTime = None, document = doc\<rparr>"

text \<open>
  \<^verbatim>\<open>
  updateErrorMessage: function(session) {
      const errorMessageEl = document.getElementById('error-message');
      const errorTextEl = document.getElementById('error-text');
      if (errorMessageEl && errorTextEl) {
          if (session.error_message && session.status === 'failed') {
              errorTextEl.textContent = session.error_message;
              errorMessageEl.style.display = 'block';
          } else {
              errorMessageEl.style.display = 'none';
          }
      }
  }
  \<close>
\<close>

definition updateErrorMessage :: "detail_document \<Rightarrow> session_json \<Rightarrow> detail_document" where
  "updateErrorMessage doc session =
     (case (error_message_el doc, error_text_el doc) of
        (Some errorMessageEl, Some errorTextEl) \<Rightarrow>
          (if truthy (json_error_message session) \<and> json_status session = ''failed'' then
             doc\<lparr>error_text_el := Some (errorTextEl\<lparr>textContent := the (json_error_message session)\<rparr>),
                 error_message_el := Some (errorMessageEl\<lparr>style_display := ''block''\<rparr>)\<rparr>
           else doc\<lparr>error_message_el := Some (errorMessageEl\<lparr>style_display := ''none''\<rparr>)\<rparr>)
      | _ \<Rightarrow> doc)"

text \<open>Whether the page shows the error banner, and the text in it.\<close>

definition banner_shown :: "detail_document \<Rightarrow> bool" where
  "banner_shown doc \<longleftrightarrow>
     (case error_message_el doc of None \<Rightarrow> False | Some el \<Rightarrow> style_display el = ''block'')"

definition banner_text :: "detail_document \<Rightarrow> jsstring option" where
  "banner_text doc = map_option textContent (error_text_el doc)"

text \<open>
  \<^verbatim>\<open>
  renderSessionData: function() {
      if (!this.sessionData) return;
      const session = this.sessionData;
      this.updateMetadata(session);
      this.updateResultsSummary(session.analyses);
      this.updateErrorMessage(session);
      this.updateProgressDisplay(session);
      this.renderFindings(session.analyses);
      this.updateActionButtons(session);
  }
  \<close>
  All but \<open>updateErrorMessage\<close> is the one effect \<open>RenderSessionData\<close>.
\<close>

definition renderSessionData :: "session_detail_app \<Rightarrow> session_detail_app \<times> effect list" where
  "renderSessionData app =
     (case sessionData app of
        None \<Rightarrow> (app, [])
      | Some session \<Rightarrow>
          (app\<lparr>document := updateErrorMessage (document app) session\<rparr>, [RenderSessionData]))"

text \<open>
  \<^verbatim>\<open>
  stopPolling: function() {
      if (this.pollingInterval) { clearInterval(this.pollingInterval); this.pollingInterval = null; }
      this.pollingStartTime = null;
  }
  \<close>
\<close>

definition detail_stopPolling :: "session_detail_app \<Rightarrow> session_detail_app \<times> effect list" where
  "detail_stopPolling app =
     (app\<lparr>detail_pollingInterval := None, detail_pollingStartTime := None\<rparr>,
      (if detail_pollingInterval app \<noteq> None then [ClearInterval] else []))"

text \<open>A field that may be \<open>null\<close>, put into a template string.\<close>

definition template_text :: "string option \<Rightarrow> string" where
  "template_text v = (case v of None \<Rightarrow> ''null'' | Some s \<Rightarrow> s)"

text \<open>
  \<^verbatim>\<open>
  loadSessionData: function() {
      this.showLoadingState();
      this.apiRequest(`/sessions/${this.sessionId}`)
          .then(session => {
              this.sessionData = session;
              this.renderSessionData();
              if (session.status === 'processing' || session.status === 'pending') {
                  this.startPolling();
              }
          })
          .catch(error => {
              console.error('Failed to load session data:', error);
              this.showError(`Failed to load session data: ${error.message}`);
          });
  }
  \<close>
  \<open>loadSessionData\<close> sends the request; \<open>loadSessionData_then\<close> and
  \<open>loadSessionData_catch\<close> run when it has succeeded or failed.
\<close>

definition loadSessionData :: "session_detail_app \<Rightarrow> session_detail_app \<times> effect list" where
  "loadSessionData app =
     (app, [ShowLoadingState, Request (apiRequest (''/sessions/'' @ template_text (sessionId app)) no_options)])"

text \<open>
  \<^verbatim>\<open>
  pollSessionStatus: async function() {
      if (!this.sessionId) return;
      if (Date.now() - this.pollingStartTime > MAX_POLLING_TIME) {
          this.showMessage('Session polling timed out after 10 minutes.', 'error');
          this.stopPolling();
          return;
      }
      try {
          const status = await this.apiRequest(`/sessions/${this.sessionId}/status`);
          this.updateProgressFromStatus(status);
          if (status.status === 'completed' || status.status === 'failed') {
              this.stopPolling();
              this.loadSessionData();
          }
      } catch (error) {
          console.error('Polling error:', error);
      }
  }
  \<close>
\<close>

definition detail_pollSessionStatus_begin ::
    "session_detail_app \<Rightarrow> int \<Rightarrow> session_detail_app \<times> effect list \<times> phase" where
  "detail_pollSessionStatus_begin app now =
     (if \<not> truthy (sessionId app) then (app, [], Returned)
      else if now - to_number (detail_pollingStartTime app) > MAX_POLLING_TIME then
        (let (app', stopped) = detail_stopPolling app
         in (app', [ShowMessage ''Session polling timed out after 10 minutes.'' ''error''] @ stopped,
             Returned))
      else
        (app,
         [Request (apiRequest (''/sessions/'' @ template_text (sessionId app) @ ''/status'') no_options)],
         Awaiting))"

text \<open>
  \<^verbatim>\<open>
  updateProgressFromStatus: function(status) {
      ... progress bar and status text ...
      if (this.sessionData) {
          this.sessionData.status = status.status;
          this.sessionData.progress = status.progress;
          this.updateMetadata(this.sessionData);
      }
  }
  \<close>
\<close>

definition updateProgressFromStatus ::
    "session_detail_app \<Rightarrow> status_response \<Rightarrow> session_detail_app \<times> effect list" where
  "updateProgressFromStatus app st =
     (app\<lparr>sessionData :=
         (case sessionData app of
            None \<Rightarrow> None
          | Some d \<Rightarrow> Some (d\<lparr>json_status := resp_status st, json_progress := resp_progress st\<rparr>))\<rparr>,
      [UpdateProgressFromStatus (resp_progress st) (resp_status st)])"

definition detail_pollSessionStatus_resume ::
    "session_detail_app \<Rightarrow> string + status_response \<Rightarrow> session_detail_app \<times> effect list" where
  "detail_pollSessionStatus_resume app response =
     (case response of
        Inl error \<Rightarrow> (app, [ConsoleError ''API request failed:'', ConsoleError ''Polling error:''])
      | Inr st \<Rightarrow>
          (let (app, updated) = updateProgressFromStatus app st
           in if resp_status st = ''completed'' \<or> resp_status st = ''failed'' then
                (let (app, stopped) = detail_stopPolling app;
                     (app, loading) = loadSessionData app
                 in (app, updated @ stopped @ loading))
              else (app, updated)))"

text \<open>
  \<^verbatim>\<open>
  startPolling: function() {
      this.stopPolling();
      this.pollingStartTime = Date.now();
      this.pollSessionStatus();
      this.pollingInterval = setInterval(() => { this.pollSessionStatus(); }, POLLING_INTERVAL);
  }
  \<close>
\<close>

definition detail_startPolling ::
    "session_detail_app \<Rightarrow> int \<Rightarrow> session_detail_app \<times> effect list \<times> phase" where
  "detail_startPolling app now =
     (let (app, stopped) = detail_stopPolling app;
          app = app\<lparr>detail_pollingStartTime := Some now\<rparr>;
          (app, polled, ph) = detail_pollSessionStatus_begin app now;
          app = app\<lparr>detail_pollingInterval := Some IntervalTimer\<rparr>
      in (app, stopped @ polled @ [SetInterval POLLING_INTERVAL], ph))"

definition loadSessionData_then ::
    "session_detail_app \<Rightarrow> session_json \<Rightarrow> int \<Rightarrow> session_detail_app \<times> effect list \<times> phase" where
  "loadSessionData_then app session now =
     (let app = app\<lparr>sessionData := Some session\<rparr>;
          (app, rendered) = renderSessionData app
      in if json_status session = ''processing'' \<or> json_status session = ''pending'' then
           (let (app, started, ph) = detail_startPolling app now in (app, rendered @ started, ph))
         else (app, rendered, Returned))"

definition loadSessionData_catch :: "session_detail_app \<Rightarrow> string \<Rightarrow> session_detail_app \<times> effect list" where
  "loadSessionData_catch app error =
     (app,
      [ConsoleError ''API request failed:'', ConsoleError ''Failed to load session data:'',
       ShowError (''Failed to load session data: '' @ error)])"

text \<open>
  \<^verbatim>\<open>
  init: function() {
      this.sessionId = this.getSessionIdFromUrl();
      if (!this.sessionId) { this.showError('No session ID provided in URL'); return; }
      this.initEventListeners();
      this.loadSessionData();
  }
  \<close>
\<close>

definition detail_init :: "session_detail_app \<Rightarrow> string option \<Rightarrow> session_detail_app \<times> effect list" where
  "detail_init app url_id =
     (let app = app\<lparr>sessionId := url_id\<rparr>
      in if \<not> truthy (sessionId app) then (app, [ShowError ''No session ID provided in URL''])
         else loadSessionData app)"

text \<open>The calls the interval timer makes, as \<open>poll_loop\<close> for the analysis page.\<close>

fun detail_poll_loop ::
    "session_detail_app \<Rightarrow> (int \<times> (string + status_response)) list \<Rightarrow> session_detail_app \<times> effect list" where
  "detail_poll_loop app [] = (app, [])"
| "detail_poll_loop app ((now, response) # ticks) =
     (if detail_pollingInterval app = None then (app, [])
      else
        (let (app, begun, ph) = detail_pollSessionStatus_begin app now;
             (app, resumed) = (case ph of Returned \<Rightarrow> (app, [])
                                | Awaiting \<Rightarrow> detail_pollSessionStatus_resume app response);
             (app, rest) = detail_poll_loop app ticks
         in (app, begun @ resumed @ rest)))"

section \<open>The detail page and the server together\<close>

text \<open>What the Polling API answers for a session in state \<open>s\<close> (spec, section 4.4).\<close>

definition status_of :: "session \<Rightarrow> status_response" where
  "status_of s = \<lparr>resp_status = status_name (status s), resp_progress = progress s\<rparr>"

definition json_of :: "string \<Rightarrow> session \<Rightarrow> session_json" where
  "json_of ident s =
     \<lparr>json_id = ident, json_status = status_name (status s), json_progress = progress s,
      json_error_message = error_message s, json_analyses = 0\<rparr>"

text \<open>
  The session on the server and the detail page watching it. The worker attempts
  transitions and progress updates (a refused transition changes nothing); the page's
  timer fires while it is set and its request is answered from the current state or
  fails; a status response of an earlier request arrives late, whatever it carries; the
  response to \<open>loadSessionData\<close> arrives, answered from the current state, or the request
  fails.
\<close>

datatype joint_event =
  WorkerTransition status "jsstring option"
  | WorkerProgress int
  | TimerTick int
  | TimerTickFailed int string
  | LateStatusResponse "string + status_response"
  | SessionLoaded int
  | SessionLoadFailed string

fun joint_step :: "session \<times> session_detail_app \<Rightarrow> joint_event \<Rightarrow> session \<times> session_detail_app" where
  "joint_step (s, app) (WorkerTransition newStatus msg) =
     (case Transition s newStatus msg of Inl _ \<Rightarrow> (s, app) | Inr s' \<Rightarrow> (s', app))"
| "joint_step (s, app) (WorkerProgress p) = (UpdateProgress s p, app)"
| "joint_step (s, app) (TimerTick now) =
     (s, fst (detail_poll_loop app [(now, Inr (status_of s))]))"
| "joint_step (s, app) (TimerTickFailed now error) =
     (s, fst (detail_poll_loop app [(now, Inl error)]))"
| "joint_step (s, app) (LateStatusResponse response) =
     (s, fst (detail_pollSessionStatus_resume app response))"
| "joint_step (s, app) (SessionLoaded now) =
     (s, fst (loadSessionData_then app (json_of (template_text (sessionId app)) s) now))"
| "joint_step (s, app) (SessionLoadFailed error) =
     (s, fst (loadSessionData_catch app error))"

definition joint_run :: "session \<times> session_detail_app \<Rightarrow> joint_event list \<Rightarrow> session \<times> session_detail_app" where
  "joint_run start events = foldl joint_step start events"

section \<open>A session's polling, in every order of ticks and answers\<close>






text \<open>The number of status requests for session \<open>ident\<close> among some effects.\<close>

definition status_polls :: "string \<Rightarrow> effect list \<Rightarrow> nat" where
  "status_polls ident effects = length (filter (\<lambda>r. r = getSessionStatus ident) (requests effects))"








text \<open>A request that reads: method \<open>GET\<close>, no body.\<close>

definition is_read :: "http_request \<Rightarrow> bool" where
  "is_read r \<longleftrightarrow> req_method r = ''GET'' \<and> req_body r = None"

text \<open>Values for the examples.\<close>

definition example_document :: detail_document where
  "example_document =
     \<lparr>error_message_el = Some \<lparr>style_display = ''block'', textContent = []\<rparr>,
      error_text_el = Some \<lparr>style_display = '''', textContent = []\<rparr>\<rparr>"

definition example_failed :: "jsstring option \<Rightarrow> session_json" where
  "example_failed msg =
     \<lparr>json_id = ''5f2b'', json_status = ''failed'', json_progress = 33, json_error_message = msg,
      json_analyses = 0\<rparr>"

definition example_status :: "string \<Rightarrow> int \<Rightarrow> string + status_response" where
  "example_status st p = Inr \<lparr>resp_status = st, resp_progress = p\<rparr>"







section \<open>Properties\<close>

subsection \<open>escapeHtml\<close>

lemma escapeHtml_serialises: "escapeHtml s = concat (map escape_code_unit s)"
  by (simp add: escapeHtml_def createElement_def set_textContent_def innerHTML_def)

lemma escape_code_unit_no_angle: "0x3C \<notin> set (escape_code_unit c) \<and> 0x3E \<notin> set (escape_code_unit c)"
  by (simp add: escape_code_unit_def js_def)

text \<open>
  C8, as stated, fails: a no-break space (U+00A0) is not kept but serialised as
  \<open>&nbsp;\<close>.
\<close>

theorem escapeHtml_nbsp_counterexample:
  "escapeHtml [0xA0] = js ''&nbsp;'' \<and> replace_amp_lt_gt [0xA0] = [0xA0] \<and>
   escapeHtml [0xA0] \<noteq> replace_amp_lt_gt [0xA0]"
  by (simp add: escapeHtml_serialises escape_code_unit_def replace_amp_lt_gt_def js_def)

text \<open>
  C8, amended: for every string \<open>s\<close>, \<open>escapeHtml s\<close> is \<open>s\<close> with every \<open>&\<close> replaced by
  \<open>&amp;\<close>, every U+00A0 by \<open>&nbsp;\<close>, every \<open><\<close> by \<open>&lt;\<close> and every \<open>>\<close> by \<open>&gt;\<close>; for a
  string without U+00A0 that is the replacement of \<open>&\<close>, \<open><\<close> and \<open>>\<close> alone; and the result
  never contains \<open><\<close> or \<open>>\<close>.
\<close>

theorem escapeHtml_replaces:
  "escapeHtml s = replace_amp_nbsp_lt_gt s \<and>
   (0xA0 \<notin> set s \<longrightarrow> escapeHtml s = replace_amp_lt_gt s) \<and>
   0x3C \<notin> set (escapeHtml s) \<and> 0x3E \<notin> set (escapeHtml s)"
proof -
  have "escapeHtml s = replace_amp_nbsp_lt_gt s"
    by (simp add: escapeHtml_serialises replace_amp_nbsp_lt_gt_def escape_code_unit_def [abs_def])
  moreover have "escapeHtml s = replace_amp_lt_gt s" if "0xA0 \<notin> set s"
    using that
    by (auto simp: escapeHtml_serialises replace_amp_lt_gt_def escape_code_unit_def
             intro!: arg_cong [where f = concat])
  moreover have "0x3C \<notin> set (escapeHtml s)" and "0x3E \<notin> set (escapeHtml s)"
    using escape_code_unit_no_angle by (auto simp: escapeHtml_serialises)
  ultimately show ?thesis by blast
qed

theorem escapeHtml_replaces_witness:
  "0xA0 \<notin> set (js ''a<b>&c'') \<and>
   escapeHtml (js ''a<b>&c'') = replace_amp_lt_gt (js ''a<b>&c'') \<and>
   escapeHtml (js ''a<b>&c'') = js ''a&lt;b&gt;&amp;c''"
proof -
  have h: "0xA0 \<notin> set (js ''a<b>&c'')" by (simp add: js_def)
  have r: "replace_amp_lt_gt (js ''a<b>&c'') = js ''a&lt;b&gt;&amp;c''"
    by (simp add: replace_amp_lt_gt_def js_def)
  have e: "escapeHtml (js ''a<b>&c'') = replace_amp_lt_gt (js ''a<b>&c'')"
    using h escapeHtml_replaces [of "js ''a<b>&c''"] by blast
  show ?thesis by (intro conjI h e trans [OF e r])
qed

subsection \<open>countLines and countUnsafeBlocks\<close>

lemma length_split_on: "length (split_on sep s) = Suc (count_list s sep)"
  by (induction s) (auto split: list.splits)

lemma unsafeRegex_exec_at_bounds:
  "unsafeRegex_exec_at s i = Some e \<Longrightarrow> i < e \<and> e \<le> length s"
  by (auto simp: unsafeRegex_exec_at_def Let_def split: if_splits)

lemma brace_not_white_space: "\<not> is_white_space 0x7B"
  by (simp add: is_white_space_def)

lemma u_not_white_space: "\<not> is_white_space 0x75"
  by (simp add: is_white_space_def)

text \<open>A successful attempt at \<open>i\<close> has read \<open>unsafe\<close>, white space and the brace.\<close>

lemma unsafeRegex_exec_at_shape:
  assumes "unsafeRegex_exec_at s i = Some e"
  shows "\<exists>ws rest. list_all is_white_space ws \<and> drop i s = js ''unsafe'' @ ws @ js ''{'' @ rest
           \<and> e = i + 7 + length ws \<and> word_boundary s i"
proof -
  define ws where "ws = takeWhile is_white_space (drop (i + 6) s)"
  define j where "j = i + 6 + length ws"
  from assms have wb: "word_boundary s i" and pre: "take 6 (drop i s) = js ''unsafe''"
    and j: "j < length s" "s ! j = 0x7B" and e: "e = Suc j"
    by (auto simp: unsafeRegex_exec_at_def Let_def ws_def j_def split: if_splits)
  have "drop (i + 6) s = ws @ dropWhile is_white_space (drop (i + 6) s)"
    by (simp add: ws_def)
  moreover have "dropWhile is_white_space (drop (i + 6) s) = drop j s"
    unfolding j_def ws_def by (simp add: dropWhile_eq_drop add.commute)
  moreover have "drop j s = s ! j # drop (Suc j) s"
    using j(1) by (simp add: Cons_nth_drop_Suc)
  ultimately have d6: "drop (i + 6) s = ws @ js ''{'' @ drop (Suc j) s"
    using j by (simp add: js_def)
  have "drop i s = take 6 (drop i s) @ drop 6 (drop i s)"
    by (rule append_take_drop_id [symmetric])
  also have "take 6 (drop i s) = js ''unsafe''"
    by (rule pre)
  also have "drop 6 (drop i s) = drop (i + 6) s"
    by (simp add: add.commute)
  also have "\<dots> = ws @ js ''{'' @ drop (Suc j) s"
    by (rule d6)
  finally have "drop i s = js ''unsafe'' @ ws @ js ''{'' @ drop (Suc j) s" .
  moreover have "list_all is_white_space ws"
    by (simp add: ws_def list_all_iff) (meson set_takeWhileD)
  ultimately show ?thesis using wb e by (auto simp: j_def)
qed

lemma unsafe_block_at_exec:
  assumes "unsafe_block_at s i"
  shows "\<exists>e. unsafeRegex_exec_at s i = Some e"
proof -
  from assms obtain ws rest where wb: "word_boundary s i" and ws: "list_all is_white_space ws"
    and d: "drop i s = js ''unsafe'' @ ws @ js ''{'' @ rest"
    by (auto simp: unsafe_block_at_def)
  have pre: "take 6 (drop i s) = js ''unsafe''"
    by (simp add: d js_def)
  have "drop (i + 6) s = drop 6 (drop i s)" by (simp add: add.commute)
  then have d6: "drop (i + 6) s = ws @ 0x7B # rest"
    by (simp add: d js_def)
  have tw: "takeWhile is_white_space (drop (i + 6) s) = ws"
    unfolding d6 using ws brace_not_white_space by (simp add: list_all_iff takeWhile_append2)
  have len: "length s - (i + 6) = length ws + Suc (length rest)"
    using arg_cong [OF d6, of length] by simp
  have "s ! (i + 6 + length ws) = drop (i + 6) s ! length ws"
    using len by simp
  then have "s ! (i + 6 + length ws) = 0x7B"
    by (simp add: d6)
  then show ?thesis
    using wb pre tw len by (simp add: unsafeRegex_exec_at_def Let_def)
qed

lemma unsafe_block_at_iff_exec: "unsafe_block_at s i \<longleftrightarrow> unsafeRegex_exec_at s i \<noteq> None"
proof
  assume "unsafe_block_at s i"
  then show "unsafeRegex_exec_at s i \<noteq> None" using unsafe_block_at_exec by fastforce
next
  assume "unsafeRegex_exec_at s i \<noteq> None"
  then obtain e where "unsafeRegex_exec_at s i = Some e" by auto
  from unsafeRegex_exec_at_shape [OF this] show "unsafe_block_at s i"
    by (auto simp: unsafe_block_at_def)
qed

lemma unsafe_block_at_starts_with_u:
  assumes "unsafe_block_at s j"
  shows "j < length s \<and> s ! j = 0x75"
proof -
  from assms obtain ws rest where d: "drop j s = js ''unsafe'' @ ws @ js ''{'' @ rest"
    by (auto simp: unsafe_block_at_def)
  then have "drop j s \<noteq> []" by (auto simp: js_def)
  then have lt: "j < length s" by simp
  then have "s ! j = hd (drop j s)" by (simp add: hd_drop_conv_nth)
  then show ?thesis using lt by (simp add: d js_def)
qed

text \<open>
  Occurrences never overlap: inside a match no other occurrence starts, since none of the
  code units after the first is a \<open>u\<close>. So continuing the search at the end of a match
  loses nothing.
\<close>

lemma no_unsafe_block_inside_match:
  assumes ex: "unsafeRegex_exec_at s i = Some e" and ij: "i < j" and je: "j < e"
  shows "\<not> unsafe_block_at s j"
proof
  assume "unsafe_block_at s j"
  then have u: "s ! j = 0x75" and jl: "j < length s"
    using unsafe_block_at_starts_with_u by auto
  from unsafeRegex_exec_at_shape [OF ex] obtain ws rest where ws: "list_all is_white_space ws"
    and d: "drop i s = js ''unsafe'' @ ws @ js ''{'' @ rest" and e: "e = i + 7 + length ws"
    by blast
  define k where "k = j - i"
  have l6: "length (js ''unsafe'') = 6" by (simp add: js_def)
  have k: "0 < k" "k < 7 + length ws" using ij je e by (auto simp: k_def)
  have "s ! j = drop i s ! k" using ij jl by (simp add: k_def)
  then have sk: "(js ''unsafe'' @ ws @ js ''{'' @ rest) ! k = 0x75" using u d by simp
  consider "k < 6" | "6 \<le> k" "k < 6 + length ws" | "k = 6 + length ws" using k by linarith
  then show False
  proof cases
    case 1
    then have "k \<in> {1, 2, 3, 4, 5}" using k by auto
    then show False using sk by (auto simp: js_def)
  next
    case 2
    then have k6: "k - 6 < length ws" by linarith
    from 2 k6 have "(js ''unsafe'' @ ws @ js ''{'' @ rest) ! k = ws ! (k - 6)"
      by (simp add: nth_append l6)
    moreover have "is_white_space (ws ! (k - 6))" using ws 2 by (simp add: list_all_length)
    ultimately show False using sk u_not_white_space by simp
  next
    case 3
    then have "(js ''unsafe'' @ ws @ js ''{'' @ rest) ! k = 0x7B"
      by (simp add: nth_append js_def)
    then show False using sk by simp
  qed
qed

lemma finite_unsafe_blocks: "finite {j. P j \<and> unsafe_block_at s j}"
proof (rule finite_subset)
  show "{j. P j \<and> unsafe_block_at s j} \<subseteq> {..<length s}"
    using unsafe_block_at_starts_with_u by auto
qed simp

lemma length_unsafeRegex_match_from:
  "length (unsafeRegex_match_from s i) = card {j. i \<le> j \<and> unsafe_block_at s j}"
proof (induction s i rule: unsafeRegex_match_from.induct)
  case (1 s i)
  show ?case
  proof (cases "length s < i")
    case True
    then have "{j. i \<le> j \<and> unsafe_block_at s j} = {}"
      using unsafe_block_at_starts_with_u by fastforce
    then have "card {j. i \<le> j \<and> unsafe_block_at s j} = 0"
      by (simp only: card.empty)
    with True show ?thesis by (simp add: unsafeRegex_match_from.simps [of s i])
  next
    case False
    show ?thesis
    proof (cases "unsafeRegex_exec_at s i")
      case None
      then have "\<not> unsafe_block_at s i" by (simp add: unsafe_block_at_iff_exec)
      then have "{j. i \<le> j \<and> unsafe_block_at s j} = {j. Suc i \<le> j \<and> unsafe_block_at s j}"
        by (auto simp: Suc_le_eq order_less_le)
      with None False "1.IH"(1) [OF False None] show ?thesis
        by (simp add: unsafeRegex_match_from.simps [of s i])
    next
      case (Some e)
      then have ie: "i < e" using unsafeRegex_exec_at_bounds by blast
      have at: "unsafe_block_at s i" using Some by (simp add: unsafe_block_at_iff_exec)
      have "{j. i \<le> j \<and> unsafe_block_at s j} = insert i {j. e \<le> j \<and> unsafe_block_at s j}"
        using at ie no_unsafe_block_inside_match [OF Some] by (auto simp: not_less [symmetric])
      moreover have "i \<notin> {j. e \<le> j \<and> unsafe_block_at s j}" using ie by simp
      ultimately have "card {j. i \<le> j \<and> unsafe_block_at s j}
          = Suc (card {j. e \<le> j \<and> unsafe_block_at s j})"
        using finite_unsafe_blocks [of "\<lambda>j. e \<le> j" s] by simp
      with Some False "1.IH"(2) [OF False Some] show ?thesis
        by (simp add: unsafeRegex_match_from.simps [of s i])
    qed
  qed
qed

lemma countUnsafeBlocks_length:
  "countUnsafeBlocks code = length (unsafeRegex_match_from code 0)"
  by (simp add: countUnsafeBlocks_def match_unsafeRegex_def split: list.splits)

lemma countUnsafeBlocks_example:
  "countUnsafeBlocks (js ''unsafe { } fn unsafe{ xunsafe { unsafe_ { unsafe x {'') = 2"
  by code_simp

text \<open>
  C9: \<open>countUnsafeBlocks code\<close> is the number of occurrences of the pattern in \<open>code\<close>
  (occurrences cannot overlap, see \<open>no_unsafe_block_inside_match\<close>), it is 0 when
  \<open>match\<close> finds nothing, so for the empty string; \<open>countLines code\<close> is the number of
  line feeds plus one, so 1 for the empty string.
\<close>

theorem countUnsafeBlocks_countLines:
  "countUnsafeBlocks code = card {i. unsafe_block_at code i} \<and>
   (match_unsafeRegex code = None \<longrightarrow> countUnsafeBlocks code = 0) \<and>
   match_unsafeRegex [] = None \<and> countUnsafeBlocks [] = 0 \<and>
   countLines code = count_list code 0x0A + 1 \<and> countLines [] = 1"
proof -
  have "countUnsafeBlocks code = card {i. unsafe_block_at code i}"
    by (simp add: countUnsafeBlocks_length length_unsafeRegex_match_from)
  moreover have "match_unsafeRegex [] = None"
    by (simp add: match_unsafeRegex_def unsafeRegex_match_from.simps [of "[]"]
          unsafeRegex_exec_at_def js_def)
  moreover have "countLines code = count_list code 0x0A + 1" "countLines [] = 1"
    by (simp_all add: countLines_def length_split_on)
  ultimately show ?thesis by (simp add: countUnsafeBlocks_def)
qed

theorem countUnsafeBlocks_countLines_witness:
  "match_unsafeRegex (js ''fn f() {}'') = None \<and> countUnsafeBlocks (js ''fn f() {}'') = 0 \<and>
   card {i. unsafe_block_at (js ''fn f() {}'') i} = 0 \<and> countLines (js ''fn f() {}'') = 1"
proof -
  have h: "match_unsafeRegex (js ''fn f() {}'') = None" by code_simp
  have "count_list (js ''fn f() {}'') 0x0A = 0" by (simp add: js_def)
  then show ?thesis using h countUnsafeBlocks_countLines [of "js ''fn f() {}''"] by simp
qed

subsection \<open>Pagination of the sessions browser\<close>

lemma length_insert_by: "length (insert_by cmp x ys) = Suc (length ys)"
  by (induction ys) auto

lemma length_array_sort: "length (array_sort cmp xs) = length xs"
  by (induction xs) (auto simp: array_sort_def length_insert_by)

lemma renderSessions_fields:
  "currentPage (renderSessions app) = currentPage app"
  "totalPages (renderSessions app) = totalPages app"
  "filteredSessions (renderSessions app) = filteredSessions app"
  "sessionsList (renderSessions app) = None \<longleftrightarrow> sessionsList app = None"
  by (auto simp: renderSessions_def Let_def split: option.splits)

lemma zero_to_one_max: "0 \<le> p \<Longrightarrow> (if p = 0 then 1 else p) = max 1 (p::int)"
  by auto

lemma updatePagination_fields:
  "currentPage (updatePagination app) = currentPage app"
  "filteredSessions (updatePagination app) = filteredSessions app"
  "sessionsList (updatePagination app) = sessionsList app"
  "totalPages (updatePagination app) = max 1 \<lceil>real (length (filteredSessions app)) / 10\<rceil>"
proof -
  have "0 \<le> \<lceil>real (length (filteredSessions app)) / 10\<rceil>"
    by (simp add: zero_le_ceiling)
  note m = zero_to_one_max [OF this]
  have "totalPages (updatePagination app) =
      (if \<lceil>real (length (filteredSessions app)) / 10\<rceil> = 0 then 1
       else \<lceil>real (length (filteredSessions app)) / 10\<rceil>)"
    by (simp add: updatePagination_def Let_def SESSIONS_PER_PAGE_def)
  then show "totalPages (updatePagination app) = max 1 \<lceil>real (length (filteredSessions app)) / 10\<rceil>"
    by (simp only: m)
qed (simp_all add: updatePagination_def Let_def)

lemma take_drop_nth_upt:
  assumes "b \<le> length xs"
  shows "take (b - a) (drop a xs) = map ((!) xs) [a..<b]"
  using assms by (intro nth_equalityI) auto

lemma applySorting_fields:
  "currentPage (applySorting app) = currentPage app"
  "length (filteredSessions (applySorting app)) = length (filteredSessions app)"
  "totalPages (applySorting app) = max 1 \<lceil>real (length (filteredSessions app)) / 10\<rceil>"
  "sessionsList (applySorting app) = None \<longleftrightarrow> sessionsList app = None"
  by (simp_all add: applySorting_def Let_def renderSessions_fields updatePagination_fields
        length_array_sort)

lemma pagination_inv_applySorting:
  assumes "1 \<le> currentPage app"
    and "currentPage app \<le> max 1 \<lceil>real (length (filteredSessions app)) / 10\<rceil>"
  shows "pagination_inv (applySorting app)"
  using assms by (simp add: pagination_inv_def applySorting_fields)

lemma applyFilters_currentPage: "currentPage (applyFilters app) = 1"
  by (simp add: applyFilters_def Let_def applySorting_fields)

lemma pagination_inv_applyFilters: "pagination_inv (applyFilters app)"
  unfolding applyFilters_def Let_def
  by (rule pagination_inv_applySorting) simp_all

lemma pagination_inv_renderSessions:
  "pagination_inv app \<Longrightarrow> pagination_inv (renderSessions app)"
  by (simp add: pagination_inv_def renderSessions_fields)

lemma pagination_inv_updatePagination:
  "pagination_inv app \<Longrightarrow> pagination_inv (updatePagination app)"
  by (simp add: pagination_inv_def updatePagination_fields)

lemma pagination_inv_sessionsList:
  "pagination_inv app \<Longrightarrow> pagination_inv (app\<lparr>sessionsList := v\<rparr>)"
  by (simp add: pagination_inv_def)

lemma pagination_inv_loadSessions_then: "pagination_inv (loadSessions_then app sessions)"
proof -
  define a where "a = applyFilters (app\<lparr>allSessions := sessions, filteredSessions := sessions\<rparr>)"
  have a: "pagination_inv a" unfolding a_def by (rule pagination_inv_applyFilters)
  then have "pagination_inv (applySorting a)"
    by (intro pagination_inv_applySorting) (simp_all add: pagination_inv_def)
  then have "pagination_inv (renderSessions (updatePagination (applySorting a)))"
    by (intro pagination_inv_renderSessions pagination_inv_updatePagination)
  then show ?thesis
    by (auto simp: loadSessions_then_def Let_def a_def pagination_inv_sessionsList split: option.splits)
qed

lemma pagination_inv_step: "pagination_inv app \<Longrightarrow> pagination_inv (sessions_step app ev)"
proof (cases ev)
  case (FilterChange v)
  then show ?thesis by (simp add: pagination_inv_applyFilters)
next
  case (SortChange v)
  assume "pagination_inv app"
  then have "pagination_inv (applySorting (app\<lparr>currentSort := v\<rparr>))"
    by (intro pagination_inv_applySorting) (simp_all add: pagination_inv_def)
  with SortChange show ?thesis by simp
next
  case RefreshClick
  assume "pagination_inv app"
  with RefreshClick show ?thesis
    by (auto simp: loadSessions_def pagination_inv_sessionsList split: option.splits)
next
  case (SessionsLoaded sessions)
  then show ?thesis by (simp add: pagination_inv_loadSessions_then)
next
  case SessionsLoadFailed
  assume "pagination_inv app"
  with SessionsLoadFailed show ?thesis
    by (auto simp: loadSessions_catch_def pagination_inv_sessionsList split: option.splits)
next
  case PrevPageClick
  assume "pagination_inv app"
  with PrevPageClick show ?thesis
    by (auto simp: pagination_inv_def renderSessions_fields)
next
  case NextPageClick
  assume "pagination_inv app"
  with NextPageClick show ?thesis
    by (auto simp: pagination_inv_def renderSessions_fields)
qed

lemma pagination_inv_init: "pagination_inv (sessions_init list_element)"
  by (auto simp: sessions_init_def loadSessions_def SessionsApp_def pagination_inv_def split: option.splits)

lemma pagination_inv_foldl:
  "pagination_inv app \<Longrightarrow> pagination_inv (foldl sessions_step app events)"
  by (induction events arbitrary: app) (simp_all add: pagination_inv_step)

lemma pagination_inv_run: "pagination_inv (sessions_run list_element events)"
  unfolding sessions_run_def by (intro pagination_inv_foldl pagination_inv_init)


lemma renderSessions_slice:
  assumes "1 \<le> currentPage app" and "sessionsList app \<noteq> None"
  shows "displayed_sessions (sessionsList (renderSessions app)) =
     map ((!) (filteredSessions app))
       [nat ((currentPage app - 1) * 10) ..< nat (min (currentPage app * 10) (int (length (filteredSessions app))))]"
proof -
  define xs where "xs = filteredSessions app"
  define a where "a = nat ((currentPage app - 1) * 10)"
  define b where "b = nat (min (currentPage app * 10) (int (length xs)))"
  have b: "b \<le> length xs" by (simp add: b_def)
  have sl: "array_slice xs ((currentPage app - 1) * 10) (min ((currentPage app - 1) * 10 + 10) (int (length xs)))
      = take (b - a) (drop a xs)"
    using assms(1) by (auto simp: array_slice_def Let_def a_def b_def min_def nat_diff_distrib algebra_simps)
  have "take (b - a) (drop a xs) = map ((!) xs) [a..<b]"
    using b by (rule take_drop_nth_upt)
  with sl assms(2) show ?thesis
    by (auto simp: renderSessions_def Let_def SESSIONS_PER_PAGE_def xs_def a_def b_def)
qed


text \<open>
  C10: after initialisation and any sequence of filter changes, sort changes, refreshes
  (with the listing arriving or failing) and page clicks, \<open>totalPages\<close> is
  \<open>max 1 \<lceil>length filteredSessions / 10\<rceil>\<close>, \<open>currentPage\<close> lies between 1 and \<open>totalPages\<close>,
  and \<open>renderSessions\<close> shows the rows of \<open>filteredSessions\<close> from index
  \<open>(currentPage - 1) * 10\<close> up to \<open>min (currentPage * 10) (length filteredSessions)\<close>.
\<close>

theorem sessions_pagination_invariant:
  "(let app = sessions_run list_element events in
      totalPages app = max 1 \<lceil>real (length (filteredSessions app)) / 10\<rceil> \<and>
      1 \<le> currentPage app \<and> currentPage app \<le> totalPages app \<and>
      (sessionsList app \<noteq> None \<longrightarrow>
         displayed_sessions (sessionsList (renderSessions app)) =
           map ((!) (filteredSessions app))
             [nat ((currentPage app - 1) * 10) ..<
              nat (min (currentPage app * 10) (int (length (filteredSessions app))))]))"
proof -
  have inv: "pagination_inv (sessions_run list_element events)"
    by (rule pagination_inv_run)
  then have "1 \<le> currentPage (sessions_run list_element events)"
    by (simp add: pagination_inv_def)
  from renderSessions_slice [OF this] inv show ?thesis
    unfolding Let_def pagination_inv_def by blast
qed

theorem sessions_pagination_invariant_witness:
  "sessionsList (sessions_run (Some Cleared)
      [SessionsLoaded (map example_row [1, 2, 3, 4, 5, 6, 7, 8, 9, 10, 11, 12]), NextPageClick]) \<noteq> None \<and>
   currentPage (sessions_run (Some Cleared)
      [SessionsLoaded (map example_row [1, 2, 3, 4, 5, 6, 7, 8, 9, 10, 11, 12]), NextPageClick]) = 2 \<and>
   totalPages (sessions_run (Some Cleared)
      [SessionsLoaded (map example_row [1, 2, 3, 4, 5, 6, 7, 8, 9, 10, 11, 12]), NextPageClick]) = 2 \<and>
   displayed_sessions (sessionsList (renderSessions (sessions_run (Some Cleared)
      [SessionsLoaded (map example_row [1, 2, 3, 4, 5, 6, 7, 8, 9, 10, 11, 12]), NextPageClick])))
     = [example_row 2, example_row 1]"
proof -
  define app where "app = sessions_run (Some Cleared)
      [SessionsLoaded (map example_row [1, 2, 3, 4, 5, 6, 7, 8, 9, 10, 11, 12]), NextPageClick]"
  have h: "sessionsList app \<noteq> None"
    unfolding app_def by code_simp
  have cp: "currentPage app = 2"
    unfolding app_def by code_simp
  have fs: "filteredSessions app = map example_row [12, 11, 10, 9, 8, 7, 6, 5, 4, 3, 2, 1]"
    unfolding app_def by code_simp
  have "upt 10 12 = [10, 11]"
    by (simp add: upt_rec)
  then have "displayed_sessions (sessionsList (renderSessions app)) = [example_row 2, example_row 1]"
    using sessions_pagination_invariant [of "Some Cleared"
        "[SessionsLoaded (map example_row [1, 2, 3, 4, 5, 6, 7, 8, 9, 10, 11, 12]), NextPageClick]"]
      h cp fs
    unfolding Let_def app_def [symmetric] by simp
  moreover have "totalPages app = 2"
    using sessions_pagination_invariant [of "Some Cleared"
        "[SessionsLoaded (map example_row [1, 2, 3, 4, 5, 6, 7, 8, 9, 10, 11, 12]), NextPageClick]"]
      fs
    unfolding Let_def app_def [symmetric] by simp
  ultimately show ?thesis
    using h cp unfolding app_def by blast
qed

subsection \<open>Progress of a session\<close>

lemma block_progress_mono: "block_progress d t \<le> block_progress (Suc d) t"
  by (simp add: block_progress_def div_le_mono)

lemma block_progress_le_100: "d \<le> t \<Longrightarrow> 0 < t \<Longrightarrow> block_progress d t \<le> 100"
proof -
  assume a: "d \<le> t" "0 < t"
  then have "200 * d + t \<le> 100 * (2 * t) + t" by simp
  then have "(200 * d + t) div (2 * t) \<le> (100 * (2 * t) + t) div (2 * t)" by (rule div_le_mono)
  also have "\<dots> = 100" using a by simp
  finally show ?thesis by (simp add: block_progress_def)
qed

lemma block_progress_nonneg: "0 \<le> block_progress d t"
  by (simp add: block_progress_def)

lemma process_blocks_progress:
  assumes "progress s = block_progress d t" "d + length blocks \<le> t" "0 < t"
  shows "sorted (progress s # map progress (process_blocks t d blocks s)) \<and>
         (\<forall>x \<in> set (process_blocks t d blocks s). 0 \<le> progress x \<and> progress x \<le> 100)"
  using assms
proof (induction t d blocks s rule: process_blocks.induct)
  case (1 t d s)
  then show ?case
    using block_progress_le_100 [of d t] block_progress_nonneg [of d t]
    by (auto simp: Transition_def split: if_splits)
next
  case (2 t d blocks s)
  define s' where "s' = UpdateProgress s (block_progress (Suc d) t)"
  have p': "progress s' = block_progress (Suc d) t" by (simp add: s'_def UpdateProgress_def)
  from 2 have len: "Suc d + length blocks \<le> t" by simp
  from "2.IH" [OF s'_def p' len \<open>0 < t\<close>]
  have ih: "sorted (progress s' # map progress (process_blocks t (Suc d) blocks s'))"
    "\<forall>x \<in> set (process_blocks t (Suc d) blocks s'). 0 \<le> progress x \<and> progress x \<le> 100"
    by auto
  have le: "progress s \<le> progress s'"
    using "2.prems"(1) p' block_progress_mono by simp
  have b: "0 \<le> progress s' \<and> progress s' \<le> 100"
    using p' block_progress_nonneg block_progress_le_100 [of "Suc d" t] len \<open>0 < t\<close> by simp
  have "sorted (progress s # progress s' # map progress (process_blocks t (Suc d) blocks s'))"
    using ih(1) le by (auto simp: order.trans [OF le])
  then show ?case using ih(2) b by (simp add: s'_def [symmetric] Let_def)
next
  case (3 t d msg blocks s)
  then show ?case
    using block_progress_le_100 [of d t] block_progress_nonneg [of d t]
    by (auto simp: Transition_def split: if_splits)
qed

lemma lifetime_progress:
  "sorted (map progress (session_lifetime work)) \<and>
   (\<forall>x \<in> set (session_lifetime work). 0 \<le> progress x \<and> progress x \<le> 100)"
proof (cases work)
  case None
  then show ?thesis by (simp add: session_lifetime_def new_session_def)
next
  case (Some blocks)
  define s1 where "s1 = new_session\<lparr>status := PROCESSING\<rparr>"
  have t: "Transition new_session PROCESSING None = Inr s1"
    by (simp add: Transition_def allowed_transition_def new_session_def s1_def)
  have p1: "progress s1 = 0" by (simp add: s1_def new_session_def)
  show ?thesis
  proof (cases "blocks = []")
    case True
    then show ?thesis using Some t p1
      by (auto simp: session_lifetime_def worker_process_def new_session_def Transition_def
            UpdateProgress_def s1_def allowed_transition_def)
  next
    case False
    then have pos: "0 < length blocks" by simp
    have "progress s1 = block_progress 0 (length blocks)"
      using p1 pos by (simp add: block_progress_def)
    from process_blocks_progress [OF this _ pos]
    have "sorted (progress s1 # map progress (process_blocks (length blocks) 0 blocks s1))"
      "\<forall>x \<in> set (process_blocks (length blocks) 0 blocks s1). 0 \<le> progress x \<and> progress x \<le> 100"
      by auto
    then show ?thesis using Some False t p1
      by (simp add: session_lifetime_def worker_process_def new_session_def)
  qed
qed

text \<open>
  C5: the progress of a session is an integer between 0 and 100, and the progress values a
  sequence of polls reads (the polls reading the session's states at non-decreasing
  positions of its lifetime) never decrease.
\<close>

theorem polled_progress_monotone:
  assumes "sorted polls" "\<forall>i \<in> set polls. i < length (session_lifetime work)"
  shows "sorted (polled_progress work polls) \<and> (\<forall>p \<in> set (polled_progress work polls). 0 \<le> p \<and> p \<le> 100)"
proof -
  let ?xs = "map progress (session_lifetime work)"
  have s: "sorted ?xs" using lifetime_progress by blast
  have eq: "polled_progress work polls = map ((!) ?xs) polls"
    using assms(2) by (simp add: polled_progress_def)
  have "sorted (map ((!) ?xs) polls)"
    using assms
  proof (induction polls)
    case Nil then show ?case by simp
  next
    case (Cons i polls)
    then show ?case using s by (auto simp: sorted_iff_nth_mono)
  qed
  moreover have "\<forall>p \<in> set (polled_progress work polls). 0 \<le> p \<and> p \<le> 100"
  proof
    fix p assume "p \<in> set (polled_progress work polls)"
    then obtain i where i: "i \<in> set polls" and p: "p = progress (session_lifetime work ! i)"
      by (auto simp: polled_progress_def)
    from i assms(2) have "session_lifetime work ! i \<in> set (session_lifetime work)"
      by (simp add: nth_mem)
    with lifetime_progress [of work] p show "0 \<le> p \<and> p \<le> 100" by blast
  qed
  ultimately show ?thesis by (simp add: eq)
qed

theorem polled_progress_monotone_witness:
  "sorted [0, 2, 2, 3, 4, 5 :: nat] \<and>
   length (session_lifetime (Some [BlockDone, BlockDone, BlockDone])) = 6 \<and>
   polled_progress (Some [BlockDone, BlockDone, BlockDone]) [0, 2, 2, 3, 4, 5] = [0, 33, 33, 67, 100, 100] \<and>
   sorted (polled_progress (Some [BlockDone, BlockDone, BlockDone]) [0, 2, 2, 3, 4, 5])"
proof -
  have s: "sorted [0, 2, 2, 3, 4, 5 :: nat]" by simp
  have l: "length (session_lifetime (Some [BlockDone, BlockDone, BlockDone])) = 6"
    by code_simp
  then have r: "\<forall>i \<in> set [0, 2, 2, 3, 4, 5]. i < length (session_lifetime (Some [BlockDone, BlockDone, BlockDone]))"
    by simp
  have v: "polled_progress (Some [BlockDone, BlockDone, BlockDone]) [0, 2, 2, 3, 4, 5] = [0, 33, 33, 67, 100, 100]"
    by code_simp
  from polled_progress_monotone [OF s r] s l v show ?thesis by blast
qed

subsection \<open>Requests\<close>

lemma getSessionStatus_request:
  "getSessionStatus ident =
     \<lparr>req_url = API_BASE_URL @ ''/sessions/'' @ ident @ ''/status'', req_method = ''GET'',
      req_headers = [(''Content-Type'', ''application/json'')], req_body = None\<rparr>"
  by (simp add: getSessionStatus_def apiRequest_def fetch_def spread_def defaultOptions_def no_options_def)

lemma getSession_request:
  "getSession ident =
     \<lparr>req_url = API_BASE_URL @ ''/sessions/'' @ ident, req_method = ''GET'',
      req_headers = [(''Content-Type'', ''application/json'')], req_body = None\<rparr>"
  by (simp add: getSession_def apiRequest_def fetch_def spread_def defaultOptions_def no_options_def)

lemma createSession_request:
  "createSession code =
     \<lparr>req_url = API_BASE_URL @ ''/sessions'', req_method = ''POST'',
      req_headers = [(''Content-Type'', ''application/json'')], req_body = Some (JSON_code code)\<rparr>"
  by (simp add: createSession_def apiRequest_def fetch_def spread_def defaultOptions_def)

lemma getSession_neq_getSessionStatus: "getSession a \<noteq> getSessionStatus a"
  by (simp add: getSession_request getSessionStatus_request)

lemma requests_simps [simp]:
  "requests [] = []"
  "requests (Request r # es) = r # requests es"
  "requests (es @ es') = requests es @ requests es'"
  by (simp_all add: requests_def)

lemma requests_other [simp]: "\<not> is_request e \<Longrightarrow> requests (e # es) = requests es"
  by (cases e) (simp_all add: requests_def)

lemma requests_stopPolling [simp]: "requests (snd (stopPolling app)) = []"
  by (simp add: stopPolling_def)

lemma requests_detail_stopPolling [simp]: "requests (snd (detail_stopPolling app)) = []"
  by (simp add: detail_stopPolling_def)


subsection \<open>One call of pollSessionStatus on the analysis page\<close>

lemma stopPolling_fields [simp]:
  "pollingInterval (fst (stopPolling app)) = None"
  "currentSessionId (fst (stopPolling app)) = None"
  "pollingStartTime (fst (stopPolling app)) = None"
  by (simp_all add: stopPolling_def)

lemma pollSessionStatus_begin_idle:
  "\<not> truthy (currentSessionId app) \<Longrightarrow> pollSessionStatus_begin app now = (app, [], Returned)"
  by (simp add: pollSessionStatus_begin_def)

lemma pollSessionStatus_begin_timeout:
  assumes "truthy (currentSessionId app)" "timed_out (pollingStartTime app) now"
  shows "pollSessionStatus_begin app now =
     (fst (stopPolling app),
      [ShowMessage ''Analysis timed out after 10 minutes. Please try again.'' ''error'']
        @ snd (stopPolling app) @ [RestoreAnalysisButtons],
      Returned)"
  using assms by (simp add: pollSessionStatus_begin_def timed_out_def case_prod_beta)

lemma pollSessionStatus_begin_request:
  assumes "truthy (currentSessionId app)" "\<not> timed_out (pollingStartTime app) now"
  shows "pollSessionStatus_begin app now =
     (app, [Request (getSessionStatus (the (currentSessionId app)))], Awaiting)"
  using assms by (simp add: pollSessionStatus_begin_def timed_out_def)

lemma pollSessionStatus_resume_continue:
  "\<not> observed_terminal response \<Longrightarrow>
     fst (pollSessionStatus_resume app response) = app \<and>
     requests (snd (pollSessionStatus_resume app response)) = []"
  by (cases response) (auto simp: pollSessionStatus_resume_def terminal_name_def)

lemma pollSessionStatus_resume_stop:
  "observed_terminal response \<Longrightarrow>
     pollingInterval (fst (pollSessionStatus_resume app response)) = None \<and>
     currentSessionId (fst (pollSessionStatus_resume app response)) = None"
  by (cases response) (auto simp: pollSessionStatus_resume_def terminal_name_def case_prod_beta)

lemma pollSessionStatus_resume_requests:
  "requests (snd (pollSessionStatus_resume app response)) =
     (case response of
        Inl error \<Rightarrow> []
      | Inr st \<Rightarrow> if resp_status st = ''completed'' \<and> truthy (currentSessionId app)
                 then [getSession (the (currentSessionId app))] else [])"
  by (cases response)
     (auto simp: pollSessionStatus_resume_def case_prod_beta fetchAndDisplayResults_def)

lemma pollSessionStatus_resume_stays_stopped:
  "pollingInterval app = None \<Longrightarrow> pollingInterval (fst (pollSessionStatus_resume app response)) = None"
  by (cases "observed_terminal response")
     (simp_all add: pollSessionStatus_resume_stop pollSessionStatus_resume_continue)

subsection \<open>The timer's calls on the analysis page\<close>

lemma poll_loop_cleared: "pollingInterval app = None \<Longrightarrow> poll_loop app ticks = (app, [])"
  by (cases ticks) auto

lemma status_polls_simps [simp]:
  "status_polls ident [] = 0"
  "status_polls ident (es @ es') = status_polls ident es + status_polls ident es'"
  "status_polls ident (Request (getSessionStatus ident) # es) = Suc (status_polls ident es)"
  by (simp_all add: status_polls_def)

lemma status_polls_no_requests: "requests es = [] \<Longrightarrow> status_polls ident es = 0"
  by (simp add: status_polls_def)

text \<open>
  The response never makes the page send a status request: what it may send is the
  request for the whole session, which is another request.
\<close>

lemma status_polls_resume:
  "status_polls (the (currentSessionId app)) (snd (pollSessionStatus_resume app response)) = 0"
proof -
  have "filter (\<lambda>r. r = getSessionStatus (the (currentSessionId app)))
          (requests (snd (pollSessionStatus_resume app response))) = []"
    unfolding pollSessionStatus_resume_requests
    by (auto simp: getSession_neq_getSessionStatus split: sum.splits)
  then show ?thesis by (simp add: status_polls_def)
qed

lemma poll_loop_tick_continue:
  assumes "truthy (currentSessionId app)" "pollingInterval app \<noteq> None"
    and "\<not> ends_polling (pollingStartTime app) (now, response)"
  shows "fst (poll_loop app ((now, response) # ticks)) = fst (poll_loop app ticks)"
    and "status_polls (the (currentSessionId app)) (snd (poll_loop app ((now, response) # ticks)))
         = Suc (status_polls (the (currentSessionId app)) (snd (poll_loop app ticks)))"
    and "requests (snd (poll_loop app ((now, response) # ticks)))
         = getSessionStatus (the (currentSessionId app)) # requests (snd (poll_loop app ticks))"
proof -
  from assms(2) obtain tm where tm: "pollingInterval app = Some tm" by auto
  from assms(3) have nt: "\<not> timed_out (pollingStartTime app) now" and no: "\<not> observed_terminal response"
    by (simp_all add: ends_polling_def)
  note b = pollSessionStatus_begin_request [OF assms(1) nt]
  note r = pollSessionStatus_resume_continue [OF no, of app]
  have r': "pollSessionStatus_resume app response = (app, snd (pollSessionStatus_resume app response))"
    using r by (metis prod.collapse)
  show "fst (poll_loop app ((now, response) # ticks)) = fst (poll_loop app ticks)"
    using tm r by (simp add: b case_prod_beta)
  show "status_polls (the (currentSessionId app)) (snd (poll_loop app ((now, response) # ticks)))
         = Suc (status_polls (the (currentSessionId app)) (snd (poll_loop app ticks)))"
    using tm r status_polls_resume [of app response] by (simp add: b case_prod_beta)
  show "requests (snd (poll_loop app ((now, response) # ticks)))
         = getSessionStatus (the (currentSessionId app)) # requests (snd (poll_loop app ticks))"
    using tm r by (simp add: b case_prod_beta)
qed

lemma poll_loop_tick_end:
  assumes "truthy (currentSessionId app)" "pollingInterval app \<noteq> None"
    and "ends_polling (pollingStartTime app) (now, response)"
  shows "pollingInterval (fst (poll_loop app ((now, response) # ticks))) = None"
    and "status_polls (the (currentSessionId app)) (snd (poll_loop app ((now, response) # ticks)))
         = (if timed_out (pollingStartTime app) now then 0 else 1)"
proof -
  show "pollingInterval (fst (poll_loop app ((now, response) # ticks))) = None"
  proof (cases "timed_out (pollingStartTime app) now")
    case True
    show ?thesis
      using assms(2)
      by (simp add: pollSessionStatus_begin_timeout [OF assms(1) True] case_prod_beta poll_loop_cleared)
  next
    case False
    with assms(3) have t: "observed_terminal response" by (simp add: ends_polling_def)
    show ?thesis
      using assms(2) pollSessionStatus_resume_stop [OF t, of app]
      by (simp add: pollSessionStatus_begin_request [OF assms(1) False] case_prod_beta poll_loop_cleared)
  qed
  show "status_polls (the (currentSessionId app)) (snd (poll_loop app ((now, response) # ticks)))
         = (if timed_out (pollingStartTime app) now then 0 else 1)"
  proof (cases "timed_out (pollingStartTime app) now")
    case True
    show ?thesis
      using assms(2) True
      by (simp add: pollSessionStatus_begin_timeout [OF assms(1) True] case_prod_beta poll_loop_cleared
            status_polls_no_requests)
  next
    case False
    with assms(3) have t: "observed_terminal response" by (simp add: ends_polling_def)
    show ?thesis
      using assms(2) False pollSessionStatus_resume_stop [OF t, of app]
        status_polls_resume [of app response]
      by (simp add: pollSessionStatus_begin_request [OF assms(1) False] case_prod_beta poll_loop_cleared)
  qed
qed

subsection \<open>One call of pollSessionStatus on the detail page\<close>

lemma detail_stopPolling_fields [simp]:
  "detail_pollingInterval (fst (detail_stopPolling app)) = None"
  "detail_pollingStartTime (fst (detail_stopPolling app)) = None"
  "sessionId (fst (detail_stopPolling app)) = sessionId app"
  "document (fst (detail_stopPolling app)) = document app"
  "sessionData (fst (detail_stopPolling app)) = sessionData app"
  by (simp_all add: detail_stopPolling_def)

lemma updateProgressFromStatus_fields [simp]:
  "detail_pollingInterval (fst (updateProgressFromStatus app st)) = detail_pollingInterval app"
  "detail_pollingStartTime (fst (updateProgressFromStatus app st)) = detail_pollingStartTime app"
  "sessionId (fst (updateProgressFromStatus app st)) = sessionId app"
  "document (fst (updateProgressFromStatus app st)) = document app"
  "requests (snd (updateProgressFromStatus app st)) = []"
  by (simp_all add: updateProgressFromStatus_def)

lemma loadSessionData_fields [simp]:
  "fst (loadSessionData app) = app"
  "requests (snd (loadSessionData app)) = [getSession (template_text (sessionId app))]"
  by (simp_all add: loadSessionData_def getSession_def)

lemma detail_begin_idle:
  "\<not> truthy (sessionId app) \<Longrightarrow> detail_pollSessionStatus_begin app now = (app, [], Returned)"
  by (simp add: detail_pollSessionStatus_begin_def)

lemma detail_begin_timeout:
  assumes "truthy (sessionId app)" "timed_out (detail_pollingStartTime app) now"
  shows "detail_pollSessionStatus_begin app now =
     (fst (detail_stopPolling app),
      [ShowMessage ''Session polling timed out after 10 minutes.'' ''error''] @ snd (detail_stopPolling app),
      Returned)"
  using assms by (simp add: detail_pollSessionStatus_begin_def timed_out_def case_prod_beta)

lemma detail_begin_request:
  assumes "truthy (sessionId app)" "\<not> timed_out (detail_pollingStartTime app) now"
  shows "detail_pollSessionStatus_begin app now =
     (app, [Request (getSessionStatus (template_text (sessionId app)))], Awaiting)"
  using assms
  by (simp add: detail_pollSessionStatus_begin_def timed_out_def getSessionStatus_def)

lemma detail_resume_continue:
  "\<not> observed_terminal response \<Longrightarrow>
     detail_pollingInterval (fst (detail_pollSessionStatus_resume app response)) = detail_pollingInterval app \<and>
     detail_pollingStartTime (fst (detail_pollSessionStatus_resume app response)) = detail_pollingStartTime app \<and>
     sessionId (fst (detail_pollSessionStatus_resume app response)) = sessionId app \<and>
     requests (snd (detail_pollSessionStatus_resume app response)) = []"
  by (cases response) (auto simp: detail_pollSessionStatus_resume_def terminal_name_def case_prod_beta)

lemma detail_resume_stop:
  "observed_terminal response \<Longrightarrow>
     detail_pollingInterval (fst (detail_pollSessionStatus_resume app response)) = None \<and>
     requests (snd (detail_pollSessionStatus_resume app response)) = [getSession (template_text (sessionId app))]"
  by (cases response) (auto simp: detail_pollSessionStatus_resume_def terminal_name_def case_prod_beta)

lemma detail_resume_stays_stopped:
  "detail_pollingInterval app = None \<Longrightarrow>
     detail_pollingInterval (fst (detail_pollSessionStatus_resume app response)) = None"
  by (cases "observed_terminal response") (simp_all add: detail_resume_stop detail_resume_continue)

lemma detail_resume_fields [simp]:
  "sessionId (fst (detail_pollSessionStatus_resume app response)) = sessionId app"
  "document (fst (detail_pollSessionStatus_resume app response)) = document app"
  by (cases response; simp add: detail_pollSessionStatus_resume_def case_prod_beta)+

lemma status_polls_detail_resume:
  "status_polls (template_text (sessionId app)) (snd (detail_pollSessionStatus_resume app response)) = 0"
proof (cases "observed_terminal response")
  case True
  from detail_resume_stop [OF this, of app] show ?thesis
    by (simp add: status_polls_def getSession_neq_getSessionStatus)
next
  case False
  from detail_resume_continue [OF this, of app] show ?thesis
    by (simp add: status_polls_def)
qed

subsection \<open>The timer's calls on the detail page\<close>

lemma detail_poll_loop_cleared:
  "detail_pollingInterval app = None \<Longrightarrow> detail_poll_loop app ticks = (app, [])"
  by (cases ticks) auto

lemma detail_poll_loop_tick_continue:
  assumes "truthy (sessionId app)" "detail_pollingInterval app \<noteq> None"
    and "\<not> ends_polling (detail_pollingStartTime app) (now, response)"
  shows "fst (detail_poll_loop app ((now, response) # ticks))
         = fst (detail_poll_loop (fst (detail_pollSessionStatus_resume app response)) ticks)"
    and "status_polls ident (snd (detail_poll_loop app ((now, response) # ticks)))
         = status_polls ident [Request (getSessionStatus (template_text (sessionId app)))]
           + status_polls ident (snd (detail_pollSessionStatus_resume app response))
           + status_polls ident (snd (detail_poll_loop (fst (detail_pollSessionStatus_resume app response)) ticks))"
proof -
  from assms(2) obtain tm where tm: "detail_pollingInterval app = Some tm" by auto
  from assms(3) have nt: "\<not> timed_out (detail_pollingStartTime app) now"
    by (simp add: ends_polling_def)
  note b = detail_begin_request [OF assms(1) nt]
  show "fst (detail_poll_loop app ((now, response) # ticks))
         = fst (detail_poll_loop (fst (detail_pollSessionStatus_resume app response)) ticks)"
    using tm by (simp add: b case_prod_beta)
  show "status_polls ident (snd (detail_poll_loop app ((now, response) # ticks)))
         = status_polls ident [Request (getSessionStatus (template_text (sessionId app)))]
           + status_polls ident (snd (detail_pollSessionStatus_resume app response))
           + status_polls ident (snd (detail_poll_loop (fst (detail_pollSessionStatus_resume app response)) ticks))"
    using tm by (simp add: b case_prod_beta del: status_polls_simps(3)) (simp add: status_polls_def)
qed

lemma detail_poll_loop_tick_end:
  assumes "truthy (sessionId app)" "detail_pollingInterval app \<noteq> None"
    and "ends_polling (detail_pollingStartTime app) (now, response)"
  shows "detail_pollingInterval (fst (detail_poll_loop app ((now, response) # ticks))) = None"
    and "status_polls (template_text (sessionId app)) (snd (detail_poll_loop app ((now, response) # ticks)))
         = (if timed_out (detail_pollingStartTime app) now then 0 else 1)"
proof -
  from assms(2) obtain tm where tm: "detail_pollingInterval app = Some tm" by auto
  show "detail_pollingInterval (fst (detail_poll_loop app ((now, response) # ticks))) = None"
  proof (cases "timed_out (detail_pollingStartTime app) now")
    case True
    show ?thesis
      using tm
      by (simp add: detail_begin_timeout [OF assms(1) True] case_prod_beta detail_poll_loop_cleared)
  next
    case False
    with assms(3) have t: "observed_terminal response" by (simp add: ends_polling_def)
    show ?thesis
      using tm detail_resume_stop [OF t, of app]
      by (simp add: detail_begin_request [OF assms(1) False] case_prod_beta detail_poll_loop_cleared)
  qed
  show "status_polls (template_text (sessionId app)) (snd (detail_poll_loop app ((now, response) # ticks)))
         = (if timed_out (detail_pollingStartTime app) now then 0 else 1)"
  proof (cases "timed_out (detail_pollingStartTime app) now")
    case True
    show ?thesis
      using tm True
      by (simp add: detail_begin_timeout [OF assms(1) True] case_prod_beta detail_poll_loop_cleared
            status_polls_no_requests)
  next
    case False
    with assms(3) have t: "observed_terminal response" by (simp add: ends_polling_def)
    show ?thesis
      using tm False detail_resume_stop [OF t, of app] status_polls_detail_resume [of app response]
      by (simp add: detail_begin_request [OF assms(1) False] case_prod_beta detail_poll_loop_cleared)
  qed
qed

subsection \<open>A session's polling from its start\<close>



lemma renderSessionData_fields [simp]:
  "detail_pollingInterval (fst (renderSessionData app)) = detail_pollingInterval app"
  "detail_pollingStartTime (fst (renderSessionData app)) = detail_pollingStartTime app"
  "sessionId (fst (renderSessionData app)) = sessionId app"
  "requests (snd (renderSessionData app)) = []"
  by (simp_all add: renderSessionData_def split: option.splits)



lemma loadSessionData_then_does_not_start:
  assumes "\<not> (json_status session = ''processing'' \<or> json_status session = ''pending'')"
  shows "detail_pollingInterval (fst (loadSessionData_then app session now)) = detail_pollingInterval app"
    and "snd (snd (loadSessionData_then app session now)) = Returned"
    and "requests (fst (snd (loadSessionData_then app session now))) = []"
    and "sessionId (fst (loadSessionData_then app session now)) = sessionId app"
  using assms by (simp_all add: loadSessionData_then_def case_prod_beta Let_def)

subsection \<open>Ticks and answers in any order, on the analysis page\<close>

lemma requests_fetchAndDisplayResults_resume [simp]:
  "requests (fetchAndDisplayResults_resume answer) = []"
  by (cases answer) (simp_all add: fetchAndDisplayResults_resume_def)





subsection \<open>Ticks and answers in any order, on the detail page\<close>


lemma loadSessionData_catch_fields [simp]:
  "fst (loadSessionData_catch app error) = app"
  "requests (snd (loadSessionData_catch app error)) = []"
  by (simp_all add: loadSessionData_catch_def)





subsection \<open>A session's polling from its start\<close>








subsection \<open>The timeout branch\<close>

text \<open>
  C3: when a call of \<open>pollSessionStatus\<close> finds more than \<open>MAX_POLLING_TIME\<close> = 600000 ms
  elapsed, it shows the timeout message, stops the polling and returns without sending
  any request, on either page; the timer being cleared, the later ticks send nothing
  either.
\<close>

theorem polling_timeout_sends_no_request:
  "(truthy (currentSessionId app) \<and> timed_out (pollingStartTime app) now \<longrightarrow>
      requests (fst (snd (pollSessionStatus_begin app now))) = [] \<and>
      snd (snd (pollSessionStatus_begin app now)) = Returned \<and>
      pollingInterval (fst (pollSessionStatus_begin app now)) = None \<and>
      ShowMessage ''Analysis timed out after 10 minutes. Please try again.'' ''error''
        \<in> set (fst (snd (pollSessionStatus_begin app now))) \<and>
      requests (snd (poll_loop app ((now, response) # ticks))) = []) \<and>
   (truthy (sessionId dapp) \<and> timed_out (detail_pollingStartTime dapp) now \<longrightarrow>
      requests (fst (snd (detail_pollSessionStatus_begin dapp now))) = [] \<and>
      snd (snd (detail_pollSessionStatus_begin dapp now)) = Returned \<and>
      detail_pollingInterval (fst (detail_pollSessionStatus_begin dapp now)) = None \<and>
      ShowMessage ''Session polling timed out after 10 minutes.'' ''error''
        \<in> set (fst (snd (detail_pollSessionStatus_begin dapp now))) \<and>
      requests (snd (detail_poll_loop dapp ((now, response) # ticks))) = []) \<and>
   (timed_out start now \<longleftrightarrow> now - to_number start > 600000)"
proof -
  have main: "requests (fst (snd (pollSessionStatus_begin app now))) = [] \<and>
      snd (snd (pollSessionStatus_begin app now)) = Returned \<and>
      pollingInterval (fst (pollSessionStatus_begin app now)) = None \<and>
      ShowMessage ''Analysis timed out after 10 minutes. Please try again.'' ''error''
        \<in> set (fst (snd (pollSessionStatus_begin app now))) \<and>
      requests (snd (poll_loop app ((now, response) # ticks))) = []"
    if h: "truthy (currentSessionId app)" "timed_out (pollingStartTime app) now"
  proof -
    note b = pollSessionStatus_begin_timeout [OF h]
    have "requests (snd (poll_loop app ((now, response) # ticks))) = []"
      by (simp add: b case_prod_beta poll_loop_cleared)
    then show ?thesis by (simp add: b)
  qed
  have detail: "requests (fst (snd (detail_pollSessionStatus_begin dapp now))) = [] \<and>
      snd (snd (detail_pollSessionStatus_begin dapp now)) = Returned \<and>
      detail_pollingInterval (fst (detail_pollSessionStatus_begin dapp now)) = None \<and>
      ShowMessage ''Session polling timed out after 10 minutes.'' ''error''
        \<in> set (fst (snd (detail_pollSessionStatus_begin dapp now))) \<and>
      requests (snd (detail_poll_loop dapp ((now, response) # ticks))) = []"
    if h: "truthy (sessionId dapp)" "timed_out (detail_pollingStartTime dapp) now"
  proof -
    note b = detail_begin_timeout [OF h]
    have "requests (snd (detail_poll_loop dapp ((now, response) # ticks))) = []"
      by (simp add: b case_prod_beta detail_poll_loop_cleared)
    then show ?thesis by (simp add: b)
  qed
  have "timed_out start now \<longleftrightarrow> now - to_number start > 600000"
    by (simp add: timed_out_def MAX_POLLING_TIME_def)
  with main detail show ?thesis by blast
qed

theorem polling_timeout_sends_no_request_witness:
  "truthy (currentSessionId \<lparr>currentSessionId = Some ''5f2b'', pollingInterval = Some IntervalTimer,
      pollingStartTime = Some 1000\<rparr>) \<and>
   timed_out (Some 1000) 601001 \<and>
   requests (snd (poll_loop \<lparr>currentSessionId = Some ''5f2b'', pollingInterval = Some IntervalTimer,
      pollingStartTime = Some 1000\<rparr>
      [(601001, example_status ''processing'' 50), (603001, example_status ''processing'' 60)])) = [] \<and>
   truthy (sessionId ((SessionDetailApp example_document)\<lparr>sessionId := Some ''5f2b'',
      detail_pollingInterval := Some IntervalTimer, detail_pollingStartTime := Some 1000\<rparr>)) \<and>
   requests (snd (detail_poll_loop ((SessionDetailApp example_document)\<lparr>sessionId := Some ''5f2b'',
      detail_pollingInterval := Some IntervalTimer, detail_pollingStartTime := Some 1000\<rparr>)
      [(601001, example_status ''processing'' 50), (603001, example_status ''processing'' 60)])) = []"
proof -
  let ?app = "\<lparr>currentSessionId = Some ''5f2b'', pollingInterval = Some IntervalTimer,
      pollingStartTime = Some 1000\<rparr>"
  let ?dapp = "(SessionDetailApp example_document)\<lparr>sessionId := Some ''5f2b'',
      detail_pollingInterval := Some IntervalTimer, detail_pollingStartTime := Some 1000\<rparr>"
  have h1: "truthy (currentSessionId ?app)" by (simp add: truthy_def)
  have h2: "timed_out (pollingStartTime ?app) 601001"
    by (simp add: timed_out_def to_number_def MAX_POLLING_TIME_def)
  have h3: "truthy (sessionId ?dapp)" by (simp add: truthy_def)
  have h4: "timed_out (detail_pollingStartTime ?dapp) 601001"
    by (simp add: timed_out_def to_number_def MAX_POLLING_TIME_def)
  from polling_timeout_sends_no_request [of ?app 601001 "example_status ''processing'' 50"
      "[(603001, example_status ''processing'' 60)]" ?dapp] h1 h2 h3 h4
  show ?thesis by simp
qed

subsection \<open>The polling requests are reads\<close>

lemma is_read_requests:
  "is_read (getSessionStatus ident)" "is_read (getSession ident)" "\<not> is_read (createSession code)"
  by (simp_all add: is_read_def getSessionStatus_request getSession_request createSession_request)

lemma pollSessionStatus_begin_reads:
  "list_all is_read (requests (fst (snd (pollSessionStatus_begin app now))))"
  by (simp add: pollSessionStatus_begin_def case_prod_beta is_read_requests)

lemma pollSessionStatus_resume_reads:
  "list_all is_read (requests (snd (pollSessionStatus_resume app response)))"
  by (simp add: pollSessionStatus_resume_requests is_read_requests split: sum.splits)

lemma fetchAndDisplayResults_reads: "list_all is_read (requests (fetchAndDisplayResults ident))"
  by (simp add: fetchAndDisplayResults_def is_read_requests)

lemma poll_loop_reads: "list_all is_read (requests (snd (poll_loop app ticks)))"
proof (induction ticks arbitrary: app)
  case Nil
  then show ?case by simp
next
  case (Cons t ticks)
  obtain now response where t: "t = (now, response)" by (cases t)
  show ?case
    using pollSessionStatus_begin_reads [of app now]
      pollSessionStatus_resume_reads [of "fst (pollSessionStatus_begin app now)" response] Cons.IH
    by (simp add: t case_prod_beta split: phase.splits)
qed

lemma detail_begin_reads:
  "list_all is_read (requests (fst (snd (detail_pollSessionStatus_begin app now))))"
proof (cases "truthy (sessionId app)")
  case False
  then show ?thesis by (simp add: detail_begin_idle)
next
  case True
  then show ?thesis
    by (cases "timed_out (detail_pollingStartTime app) now")
       (simp_all add: detail_begin_timeout detail_begin_request is_read_requests)
qed

lemma detail_resume_reads:
  "list_all is_read (requests (snd (detail_pollSessionStatus_resume app response)))"
  by (cases "observed_terminal response")
     (simp_all add: detail_resume_stop detail_resume_continue is_read_requests)

lemma detail_poll_loop_reads: "list_all is_read (requests (snd (detail_poll_loop app ticks)))"
proof (induction ticks arbitrary: app)
  case Nil
  then show ?case by simp
next
  case (Cons t ticks)
  obtain now response where t: "t = (now, response)" by (cases t)
  show ?case
    using detail_begin_reads [of app now]
      detail_resume_reads [of "fst (detail_pollSessionStatus_begin app now)" response] Cons.IH
    by (simp add: t case_prod_beta split: phase.splits)
qed

text \<open>
  C6: every request the timer's calls of \<open>pollSessionStatus\<close> send, on either page, and
  the requests for the whole session that follow a terminal status
  (\<open>fetchAndDisplayResults\<close>, \<open>loadSessionData\<close>), are \<open>GET\<close> requests without a body:
  \<open>apiRequest\<close> is called without a method option, and \<open>fetch\<close> then sends \<open>GET\<close>.
\<close>

theorem polling_requests_are_reads:
  "list_all is_read (requests (snd (poll_loop app ticks))) \<and>
   list_all is_read (requests (snd (detail_poll_loop dapp ticks))) \<and>
   list_all is_read (requests (fetchAndDisplayResults ident)) \<and>
   list_all is_read (requests (snd (loadSessionData dapp))) \<and>
   req_method (getSessionStatus session_id) = ''GET'' \<and> req_body (getSessionStatus session_id) = None \<and>
   req_method (getSession session_id) = ''GET'' \<and> req_body (getSession session_id) = None"
  using poll_loop_reads detail_poll_loop_reads fetchAndDisplayResults_reads is_read_requests
  by (simp add: is_read_def)

subsection \<open>Terminal states\<close>

lemma Transition_terminal:
  "is_terminal (status s) \<Longrightarrow> Transition s newStatus msg = Inl InvalidTransitionError"
  by (auto simp: Transition_def allowed_transition_def is_terminal_def)

lemma terminal_status_name:
  "is_terminal st \<Longrightarrow> terminal_name (status_name st)"
  "is_terminal st \<Longrightarrow> status_name st \<noteq> ''processing'' \<and> status_name st \<noteq> ''pending''"
  by (cases st; simp add: is_terminal_def terminal_name_def)+

lemma loadSessionData_then_starts_iff:
  assumes "detail_pollingInterval app = None"
  shows "detail_pollingInterval (fst (loadSessionData_then app session now)) \<noteq> None
     \<longleftrightarrow> json_status session = ''processing'' \<or> json_status session = ''pending''"
proof (cases "json_status session = ''processing'' \<or> json_status session = ''pending''")
  case True
  then have "detail_pollingInterval (fst (loadSessionData_then app session now)) = Some IntervalTimer"
    by (auto simp: loadSessionData_then_def detail_startPolling_def case_prod_beta Let_def)
  with True show ?thesis by simp
next
  case False
  from loadSessionData_then_does_not_start(1) [OF False, of app now] assms False
  show ?thesis by simp
qed

text \<open>
  With the session in a terminal state and the page's polling stopped, no event changes
  either.
\<close>

lemma joint_step_terminal:
  assumes "is_terminal (status s)" "detail_pollingInterval app = None"
  shows "status (fst (joint_step (s, app) ev)) = status s \<and>
         detail_pollingInterval (snd (joint_step (s, app) ev)) = None"
proof (cases ev)
  case (WorkerTransition newStatus msg)
  then show ?thesis using assms by (simp add: Transition_terminal)
next
  case (WorkerProgress p)
  then show ?thesis using assms by (simp add: UpdateProgress_def)
next
  case (TimerTick now)
  then show ?thesis using assms by (simp add: detail_poll_loop_cleared)
next
  case (TimerTickFailed now error)
  then show ?thesis using assms by (simp add: detail_poll_loop_cleared)
next
  case (LateStatusResponse response)
  then show ?thesis using assms by (simp add: detail_resume_stays_stopped)
next
  case (SessionLoaded now)
  have "\<not> (json_status (json_of (template_text (sessionId app)) s) = ''processing'' \<or>
      json_status (json_of (template_text (sessionId app)) s) = ''pending'')"
    using terminal_status_name(2) [OF assms(1)] by (simp add: json_of_def)
  from loadSessionData_then_does_not_start(1) [OF this, of app now] SessionLoaded assms
  show ?thesis by simp
next
  case (SessionLoadFailed error)
  then show ?thesis using assms by (simp add: loadSessionData_catch_def)
qed

lemma joint_run_terminal:
  assumes "is_terminal (status s)" "detail_pollingInterval app = None"
  shows "status (fst (joint_run (s, app) events)) = status s \<and>
         detail_pollingInterval (snd (joint_run (s, app) events)) = None"
  using assms
proof (induction events arbitrary: s app)
  case Nil
  then show ?case by (simp add: joint_run_def)
next
  case (Cons ev events)
  obtain s' app' where st: "joint_step (s, app) ev = (s', app')" by (cases "joint_step (s, app) ev")
  from joint_step_terminal [OF Cons.prems, of ev] st
  have k: "status s' = status s" "detail_pollingInterval app' = None" by simp_all
  then have "is_terminal (status s')" using Cons.prems(1) by simp
  from Cons.IH [OF this k(2)] k(1) st show ?case by (simp add: joint_run_def)
qed

text \<open>A tick that reads a terminal state stops the polling.\<close>

lemma joint_tick_terminal:
  assumes "is_terminal (status s)" "truthy (sessionId app)"
  shows "fst (joint_step (s, app) (TimerTick now)) = s \<and>
         detail_pollingInterval (snd (joint_step (s, app) (TimerTick now))) = None"
proof (cases "detail_pollingInterval app = None")
  case True
  then show ?thesis by (simp add: detail_poll_loop_cleared)
next
  case False
  have "observed_terminal (Inr (status_of s))"
    using terminal_status_name(1) [OF assms(1)] by (simp add: status_of_def)
  then have "ends_polling (detail_pollingStartTime app) (now, Inr (status_of s))"
    by (simp add: ends_polling_def)
  from detail_poll_loop_tick_end(1) [OF assms(2) False this, of "[]"] show ?thesis by simp
qed

text \<open>
  C2: no transition leaves \<open>COMPLETED\<close> or \<open>FAILED\<close>; and once a call of
  \<open>pollSessionStatus\<close> has read such a status the polling of that session is stopped and
  stays stopped: on the analysis page the timer is cleared and the session forgotten, so
  no later tick or late response polls again; on the detail page whatever follows (worker
  calls, late responses, the response to \<open>loadSessionData\<close>) leaves the timer cleared, as
  \<open>loadSessionData\<close> starts the polling only for the status processing or pending.
\<close>

theorem terminal_states_absorbing:
  "(is_terminal (status s) \<longrightarrow> Transition s newStatus msg = Inl InvalidTransitionError) \<and>
   (is_terminal (status s) \<and> truthy (sessionId dapp) \<longrightarrow>
      status (fst (joint_run (s, dapp) (TimerTick now # events))) = status s \<and>
      detail_pollingInterval (snd (joint_run (s, dapp) (TimerTick now # events))) = None) \<and>
   (detail_pollingInterval dapp = None \<longrightarrow>
      (detail_pollingInterval (fst (loadSessionData_then dapp session now)) \<noteq> None
         \<longleftrightarrow> json_status session = ''processing'' \<or> json_status session = ''pending'')) \<and>
   (observed_terminal response \<longrightarrow>
      pollingInterval (fst (pollSessionStatus_resume app response)) = None \<and>
      currentSessionId (fst (pollSessionStatus_resume app response)) = None \<and>
      poll_loop (fst (pollSessionStatus_resume app response)) ticks
        = (fst (pollSessionStatus_resume app response), []) \<and>
      pollingInterval (fst (pollSessionStatus_resume (fst (pollSessionStatus_resume app response)) late)) = None)"
proof -
  have a: "Transition s newStatus msg = Inl InvalidTransitionError" if "is_terminal (status s)"
    using that by (rule Transition_terminal)
  have b: "status (fst (joint_run (s, dapp) (TimerTick now # events))) = status s \<and>
      detail_pollingInterval (snd (joint_run (s, dapp) (TimerTick now # events))) = None"
    if h: "is_terminal (status s)" "truthy (sessionId dapp)"
  proof -
    obtain dapp' where st: "joint_step (s, dapp) (TimerTick now) = (s, dapp')"
      and i: "detail_pollingInterval dapp' = None"
      using joint_tick_terminal [OF h, of now] by (metis prod.collapse)
    from joint_run_terminal [OF h(1) i, of events] st show ?thesis
      by (simp add: joint_run_def)
  qed
  have c: "detail_pollingInterval (fst (loadSessionData_then dapp session now)) \<noteq> None
         \<longleftrightarrow> json_status session = ''processing'' \<or> json_status session = ''pending''"
    if "detail_pollingInterval dapp = None"
    using that by (rule loadSessionData_then_starts_iff)
  have d: "pollingInterval (fst (pollSessionStatus_resume app response)) = None \<and>
      currentSessionId (fst (pollSessionStatus_resume app response)) = None \<and>
      poll_loop (fst (pollSessionStatus_resume app response)) ticks
        = (fst (pollSessionStatus_resume app response), []) \<and>
      pollingInterval (fst (pollSessionStatus_resume (fst (pollSessionStatus_resume app response)) late)) = None"
    if "observed_terminal response"
    using pollSessionStatus_resume_stop [OF that, of app]
    by (simp add: poll_loop_cleared pollSessionStatus_resume_stays_stopped)
  from a b c d show ?thesis by blast
qed

theorem terminal_states_absorbing_witness:
  "is_terminal (status (new_session\<lparr>status := COMPLETED, progress := 100\<rparr>)) \<and>
   truthy (sessionId ((SessionDetailApp example_document)\<lparr>sessionId := Some ''5f2b'',
      detail_pollingInterval := Some IntervalTimer, detail_pollingStartTime := Some 1000\<rparr>)) \<and>
   Transition (new_session\<lparr>status := COMPLETED, progress := 100\<rparr>) PROCESSING None
     = Inl InvalidTransitionError \<and>
   detail_pollingInterval (snd (joint_run
     (new_session\<lparr>status := COMPLETED, progress := 100\<rparr>,
      (SessionDetailApp example_document)\<lparr>sessionId := Some ''5f2b'',
        detail_pollingInterval := Some IntervalTimer, detail_pollingStartTime := Some 1000\<rparr>)
     [TimerTick 3000, WorkerTransition PROCESSING None, SessionLoaded 3100,
      LateStatusResponse (example_status ''processing'' 90), TimerTick 5000])) = None \<and>
   observed_terminal (example_status ''failed'' 33) \<and>
   pollingInterval (fst (pollSessionStatus_resume
     \<lparr>currentSessionId = Some ''5f2b'', pollingInterval = Some IntervalTimer, pollingStartTime = Some 1000\<rparr>
     (example_status ''failed'' 33))) = None"
proof -
  let ?s = "new_session\<lparr>status := COMPLETED, progress := 100\<rparr>"
  let ?dapp = "(SessionDetailApp example_document)\<lparr>sessionId := Some ''5f2b'',
      detail_pollingInterval := Some IntervalTimer, detail_pollingStartTime := Some 1000\<rparr>"
  let ?app = "\<lparr>currentSessionId = Some ''5f2b'', pollingInterval = Some IntervalTimer,
      pollingStartTime = Some 1000\<rparr>"
  have h1: "is_terminal (status ?s)" by (simp add: is_terminal_def)
  have h2: "truthy (sessionId ?dapp)" by (simp add: truthy_def)
  have h3: "observed_terminal (example_status ''failed'' 33)"
    by (simp add: example_status_def terminal_name_def)
  from terminal_states_absorbing [of ?s PROCESSING None ?dapp 3000
      "[WorkerTransition PROCESSING None, SessionLoaded 3100,
        LateStatusResponse (example_status ''processing'' 90), TimerTick 5000]"
      "example_failed None" "example_status ''failed'' 33" ?app "[]" "Inl ''x''"] h1 h2 h3
  show ?thesis by simp
qed

subsection \<open>Submission\<close>

lemma dropWhile_empty_iff: "dropWhile P xs = [] \<longleftrightarrow> (\<forall>x \<in> set xs. P x)"
  by (induction xs) auto

lemma trim_empty_iff: "trim v = [] \<longleftrightarrow> list_all is_white_space v"
proof -
  have "trim v = [] \<longleftrightarrow> (\<forall>x \<in> set (dropWhile is_white_space v). is_white_space x)"
    by (simp add: trim_def dropWhile_empty_iff)
  also have "\<dots> \<longleftrightarrow> dropWhile is_white_space v = []"
  proof
    assume a: "\<forall>x \<in> set (dropWhile is_white_space v). is_white_space x"
    show "dropWhile is_white_space v = []"
    proof (rule ccontr)
      assume n: "dropWhile is_white_space v \<noteq> []"
      then have "\<not> is_white_space (hd (dropWhile is_white_space v))" by (rule hd_dropWhile)
      moreover have "hd (dropWhile is_white_space v) \<in> set (dropWhile is_white_space v)"
        using n by simp
      ultimately show False using a by blast
    qed
  next
    assume "dropWhile is_white_space v = []"
    then show "\<forall>x \<in> set (dropWhile is_white_space v). is_white_space x"
      by (simp del: dropWhile_eq_Nil_conv)
  qed
  also have "\<dots> \<longleftrightarrow> list_all is_white_space v"
    by (simp add: dropWhile_empty_iff list_all_iff)
  finally show ?thesis .
qed

lemma trim_no_white_space:
  assumes "\<forall>x \<in> set v. \<not> is_white_space x"
  shows "trim v = v"
proof -
  have "dropWhile is_white_space v = v" using assms by (cases v) auto
  moreover have "dropWhile is_white_space (rev v) = rev v" using assms by (cases "rev v") auto
  ultimately show ?thesis by (simp add: trim_def)
qed

lemma startAnalysis_begin_empty:
  "trim v = [] \<Longrightarrow> startAnalysis_begin app v
     = (app, [ShowMessage ''Please enter some Rust code to analyze.'' ''warning''], Returned)"
  by (simp add: startAnalysis_begin_def)

lemma startAnalysis_begin_code:
  "trim v \<noteq> [] \<Longrightarrow> startAnalysis_begin app v
     = (app, [SetAnalyzing, Request (createSession (trim v))], Awaiting)"
  by (simp add: startAnalysis_begin_def Let_def)

text \<open>
  C4, as stated, fails for oversized code: \<open>startAnalysis\<close> knows no maximum length, so
  whatever the maximum is, there is a longer input for which it sends the request.
\<close>

theorem startAnalysis_oversized_counterexample:
  "\<not> (\<exists>maxLength. \<forall>input_value. maxLength < length (trim input_value) \<longrightarrow>
        requests (fst (snd (startAnalysis_begin RustGreenApp input_value))) = [])"
proof
  assume "\<exists>maxLength. \<forall>input_value. maxLength < length (trim input_value) \<longrightarrow>
        requests (fst (snd (startAnalysis_begin RustGreenApp input_value))) = []"
  then obtain maxLength where m: "\<And>input_value. maxLength < length (trim input_value) \<Longrightarrow>
        requests (fst (snd (startAnalysis_begin RustGreenApp input_value))) = []"
    by blast
  define v :: jsstring where "v = replicate (Suc maxLength) 0x61"
  have "\<forall>x \<in> set v. \<not> is_white_space x" by (simp add: v_def is_white_space_def)
  then have t: "trim v = v" by (rule trim_no_white_space)
  then have "maxLength < length (trim v)" by (simp add: v_def)
  from m [OF this] have "requests (fst (snd (startAnalysis_begin RustGreenApp v))) = []" .
  moreover have "trim v \<noteq> []" using t by (simp add: v_def)
  ultimately show False by (simp add: startAnalysis_begin_code)
qed

text \<open>
  C4, amended: for every input whose trimmed text is empty (the input is white space
  only), \<open>startAnalysis\<close> sends no request and shows a warning at once; every other
  input, of whatever length, leads to exactly one request, the \<open>POST /sessions\<close> with the
  trimmed code. The client enforces no maximum length.
\<close>

theorem startAnalysis_validation:
  "(trim v = [] \<longleftrightarrow> list_all is_white_space v) \<and>
   (trim v = [] \<longrightarrow>
      startAnalysis_begin app v
        = (app, [ShowMessage ''Please enter some Rust code to analyze.'' ''warning''], Returned) \<and>
      requests (fst (snd (startAnalysis_begin app v))) = []) \<and>
   (trim v \<noteq> [] \<longrightarrow>
      requests (fst (snd (startAnalysis_begin app v))) = [createSession (trim v)] \<and>
      snd (snd (startAnalysis_begin app v)) = Awaiting) \<and>
   req_method (createSession code) = ''POST'' \<and>
   req_url (createSession code) = API_BASE_URL @ ''/sessions'' \<and>
   req_body (createSession code) = Some (JSON_code code)"
  by (simp add: trim_empty_iff [symmetric] startAnalysis_begin_empty startAnalysis_begin_code
        createSession_request)

theorem startAnalysis_validation_witness:
  "trim (js ''  '' @ [0x0A, 0x09]) = [] \<and>
   requests (fst (snd (startAnalysis_begin RustGreenApp (js ''  '' @ [0x0A, 0x09])))) = [] \<and>
   trim (js '' fn main() {} '' @ [0x0A]) = js ''fn main() {}'' \<and>
   requests (fst (snd (startAnalysis_begin RustGreenApp (js '' fn main() {} '' @ [0x0A]))))
     = [createSession (js ''fn main() {}'')]"
proof -
  have e: "trim (js ''  '' @ [0x0A, 0x09]) = []"
    by (simp add: trim_def js_def is_white_space_def)
  have t: "trim (js '' fn main() {} '' @ [0x0A]) = js ''fn main() {}''"
    by (simp add: trim_def js_def is_white_space_def)
  then have n: "trim (js '' fn main() {} '' @ [0x0A]) \<noteq> []"
    by (simp add: js_def)
  from startAnalysis_validation [of "js ''  '' @ [0x0A, 0x09]" RustGreenApp] e
  have "requests (fst (snd (startAnalysis_begin RustGreenApp (js ''  '' @ [0x0A, 0x09])))) = []"
    by blast
  moreover from startAnalysis_validation [of "js '' fn main() {} '' @ [0x0A]" RustGreenApp] n
  have "requests (fst (snd (startAnalysis_begin RustGreenApp (js '' fn main() {} '' @ [0x0A]))))
     = [createSession (trim (js '' fn main() {} '' @ [0x0A]))]"
    by blast
  ultimately show ?thesis using e t by simp
qed

subsection \<open>The error banner\<close>

lemma updateErrorMessage_shown:
  assumes "error_message_el doc = Some em" "error_text_el doc = Some et"
    and "truthy (json_error_message session)" "json_status session = ''failed''"
  shows "updateErrorMessage doc session =
     doc\<lparr>error_text_el := Some (et\<lparr>textContent := the (json_error_message session)\<rparr>),
         error_message_el := Some (em\<lparr>style_display := ''block''\<rparr>)\<rparr>"
  using assms by (simp add: updateErrorMessage_def)

lemma updateErrorMessage_hidden:
  assumes "error_message_el doc = Some em" "error_text_el doc = Some et"
    and "\<not> (truthy (json_error_message session) \<and> json_status session = ''failed'')"
  shows "updateErrorMessage doc session = doc\<lparr>error_message_el := Some (em\<lparr>style_display := ''none''\<rparr>)\<rparr>"
  using assms by (auto simp: updateErrorMessage_def)

lemma truthy_iff: "truthy v \<longleftrightarrow> v \<noteq> None \<and> v \<noteq> Some []"
  by (cases v) (simp_all add: truthy_def)

lemma detail_startPolling_document [simp]:
  "document (fst (detail_startPolling app now)) = document app"
  by (simp add: detail_startPolling_def detail_pollSessionStatus_begin_def case_prod_beta Let_def)

lemma loadSessionData_then_document:
  "document (fst (loadSessionData_then app session now)) = updateErrorMessage (document app) session"
  by (simp add: loadSessionData_then_def renderSessionData_def case_prod_beta Let_def)

text \<open>
  C7, as stated, fails for a failed session whose error message is the empty string: it is
  not null, yet the banner is hidden, since the empty string is falsy.
\<close>

theorem updateErrorMessage_empty_message_counterexample:
  "json_status (example_failed (Some [])) = ''failed'' \<and>
   json_error_message (example_failed (Some [])) \<noteq> None \<and>
   \<not> banner_shown (updateErrorMessage example_document (example_failed (Some [])))"
  by (simp add: example_failed_def example_document_def updateErrorMessage_def banner_shown_def
        truthy_def)

text \<open>
  C7, amended: on a page that has the two elements, the banner is shown, with the
  session's error message as its text, exactly when the status is failed and the error
  message is neither null nor empty; in every other case the banner is hidden. This is
  what the page shows once \<open>loadSessionData\<close> has received the session.
\<close>

theorem updateErrorMessage_banner:
  assumes "error_message_el doc \<noteq> None" and "error_text_el doc \<noteq> None"
  shows
    "(banner_shown (updateErrorMessage doc session) \<longleftrightarrow>
        json_status session = ''failed'' \<and> json_error_message session \<noteq> None \<and>
        json_error_message session \<noteq> Some []) \<and>
     (banner_shown (updateErrorMessage doc session) \<longrightarrow>
        banner_text (updateErrorMessage doc session) = json_error_message session) \<and>
     (\<not> banner_shown (updateErrorMessage doc session) \<longrightarrow>
        map_option style_display (error_message_el (updateErrorMessage doc session)) = Some ''none'') \<and>
     document (fst (loadSessionData_then dapp session now)) = updateErrorMessage (document dapp) session"
proof -
  from assms obtain em et where el: "error_message_el doc = Some em" "error_text_el doc = Some et"
    by auto
  show ?thesis
  proof (cases "truthy (json_error_message session) \<and> json_status session = ''failed''")
    case True
    then obtain m where m: "json_error_message session = Some m" "m \<noteq> []"
      by (cases "json_error_message session") (auto simp: truthy_def)
    from True updateErrorMessage_shown [OF el, of session] m show ?thesis
      by (simp add: banner_shown_def banner_text_def loadSessionData_then_document)
  next
    case False
    from False updateErrorMessage_hidden [OF el False] show ?thesis
      by (auto simp: banner_shown_def truthy_iff loadSessionData_then_document)
  qed
qed

theorem updateErrorMessage_banner_witness:
  "error_message_el example_document \<noteq> None \<and> error_text_el example_document \<noteq> None \<and>
   banner_shown (updateErrorMessage example_document (example_failed (Some (js ''detect failed'')))) \<and>
   banner_text (updateErrorMessage example_document (example_failed (Some (js ''detect failed''))))
     = Some (js ''detect failed'')"
proof -
  have h1: "error_message_el example_document \<noteq> None" and h2: "error_text_el example_document \<noteq> None"
    by (simp_all add: example_document_def)
  have s: "json_status (example_failed (Some (js ''detect failed''))) = ''failed''"
    "json_error_message (example_failed (Some (js ''detect failed''))) = Some (js ''detect failed'')"
    by (simp_all add: example_failed_def)
  have n: "js ''detect failed'' \<noteq> []" by (simp add: js_def)
  from updateErrorMessage_banner [OF h1 h2, of "example_failed (Some (js ''detect failed''))"] s n h1 h2
  show ?thesis by simp
qed

end
